theory Spec2Isabelle
  imports Main
begin

section \<open>JavaScript values\<close>

text \<open>
  The drivers are TypeScript and receive untyped payloads (\<open>AnyObject\<close>, \<open>any\<close>), so the
  values that flow through them are modelled as a datatype of JavaScript values: the
  values that JSON can carry, and \<open>undefined\<close>. Functions, symbols, \<open>BigInt\<close>s and
  instances of classes such as \<open>Date\<close> are not among them. An object is the list of its
  own enumerable properties in the order \<open>Object.entries\<close> enumerates them; its
  prototype is \<open>Object.prototype\<close>.

  A number is represented by the text that the engine's \<open>Number::toString\<close> gives for it,
  such as \<open>42\<close>, \<open>-0.5\<close>, \<open>1e+21\<close>, \<open>NaN\<close> or \<open>Infinity\<close>: the conversion of a
  double to its shortest decimal is the engine's, and what the drivers do with a number
  (interpolation, \<open>JSON.stringify\<close>, the truth test) depends on the number through this
  text only.
\<close>

datatype jsval =
    JUndefined
  | JNull
  | JBool bool
  | JNum string
  | JStr string
  | JArr "jsval list"
  | JObj "(string \<times> jsval) list"

text \<open>
  What the code throws: \<open>new Error(message)\<close>, the engine's \<open>TypeError\<close>, and an error
  object rejected by a vendor library, of which only the \<open>response\<close> property is ever
  read by the drivers.
\<close>

datatype error =
    Error string
  | TypeError
  | VendorError (response: jsval)

subsection \<open>Characters that cannot be written inside a string literal\<close>

definition dq :: string where
  "dq = [CHR 0x22]"

definition sq :: string where
  "sq = [CHR 0x27]"

definition bt :: string where
  "bt = [CHR 0x60]"

definition nl :: string where
  "nl = [CHR 0x0A]"

subsection \<open>Array indices and lengths as text\<close>

definition digit :: "nat \<Rightarrow> char" where
  "digit d = ''0123456789'' ! d"

fun show_nat :: "nat \<Rightarrow> string" where
  "show_nat n = (if n < 10 then [digit n] else show_nat (n div 10) @ [digit (n mod 10)])"

declare show_nat.simps [simp del]

subsection \<open>\<open>Array.prototype.join\<close> and \<open>Array.prototype.map\<close>\<close>

fun join :: "string \<Rightarrow> string list \<Rightarrow> string" where
  "join sep [] = []"
| "join sep [x] = x"
| "join sep (x # y # ys) = x @ sep @ join sep (y # ys)"

text \<open>A callback that throws ends the \<open>map\<close> with its error.\<close>

fun map_throw :: "('a \<Rightarrow> 'e + 'b) \<Rightarrow> 'a list \<Rightarrow> 'e + 'b list" where
  "map_throw f [] = Inr []"
| "map_throw f (x # xs) =
     (case f x of
        Inl e \<Rightarrow> Inl e
      | Inr y \<Rightarrow> (case map_throw f xs of Inl e \<Rightarrow> Inl e | Inr ys \<Rightarrow> Inr (y # ys)))"

lemma map_throw_cong [fundef_cong]:
  "xs = ys \<Longrightarrow> (\<And>x. x \<in> set ys \<Longrightarrow> f x = g x) \<Longrightarrow> map_throw f xs = map_throw g ys"
  by (induction ys arbitrary: xs) (auto split: sum.splits)

subsection \<open>Template interpolation: the abstract operation \<open>ToString\<close>\<close>

text \<open>
  \<open>`${value}`\<close> converts with \<open>ToString\<close>. A primitive has its text. An array is
  converted by \<open>join\<close>: its elements converted in turn and separated by commas, \<open>null\<close>
  and \<open>undefined\<close> elements empty. An object is converted by the \<open>toString\<close> it
  inherits, to \<open>[object Object]\<close>, unless it has an own property of that name: no value of
  the model is callable, so the conversion then finds no method that gives a primitive and
  throws a \<open>TypeError\<close>.
\<close>

definition has_own :: "(string \<times> jsval) list \<Rightarrow> string \<Rightarrow> bool" where
  "has_own kvs p = (p \<in> fst ` set kvs)"

fun ToString :: "jsval \<Rightarrow> error + string"
  and element_text :: "jsval \<Rightarrow> error + string" where
  "ToString JUndefined = Inr ''undefined''"
| "ToString JNull = Inr ''null''"
| "ToString (JBool b) = Inr (if b then ''true'' else ''false'')"
| "ToString (JNum text) = Inr text"
| "ToString (JStr s) = Inr s"
| "ToString (JArr xs) =
     (case map_throw element_text xs of Inl e \<Rightarrow> Inl e | Inr texts \<Rightarrow> Inr (join '','' texts))"
| "ToString (JObj kvs) =
     (if has_own kvs ''toString'' then Inl TypeError else Inr ''[object Object]'')"
| "element_text v = (if v = JUndefined \<or> v = JNull then Inr [] else ToString v)"

subsection \<open>\<open>JSON.stringify\<close>\<close>

definition hex_digit :: "nat \<Rightarrow> char" where
  "hex_digit d = ''0123456789abcdef'' ! d"

definition escape_char :: "char \<Rightarrow> string" where
  "escape_char c =
     (if c = CHR 0x22 then [CHR 0x5C, CHR 0x22]
      else if c = CHR 0x5C then [CHR 0x5C, CHR 0x5C]
      else if c = CHR 0x08 then [CHR 0x5C, CHR ''b'']
      else if c = CHR 0x0C then [CHR 0x5C, CHR ''f'']
      else if c = CHR 0x0A then [CHR 0x5C, CHR ''n'']
      else if c = CHR 0x0D then [CHR 0x5C, CHR ''r'']
      else if c = CHR 0x09 then [CHR 0x5C, CHR ''t'']
      else if (of_char c :: nat) < 32
        then [CHR 0x5C, CHR ''u'', CHR ''0'', CHR ''0'',
              hex_digit (of_char c div 16), hex_digit (of_char c mod 16)]
      else [c])"

definition quote :: "string \<Rightarrow> string" where
  "quote s = dq @ concat (map escape_char s) @ dq"

text \<open>
  \<open>JSON.stringify\<close> returns \<open>undefined\<close> (here \<open>None\<close>) for \<open>undefined\<close>; inside an
  array such an element is written \<open>null\<close>, inside an object the property is left out. A
  finite number is written with its text, \<open>NaN\<close> and the infinities as \<open>null\<close>. No value
  of the model is callable, so no \<open>toJSON\<close> is ever called.
\<close>

fun JSON_stringify :: "jsval \<Rightarrow> string option"
  and stringify_element :: "jsval \<Rightarrow> string"
  and stringify_property :: "string \<times> jsval \<Rightarrow> string list" where
  "JSON_stringify JUndefined = None"
| "JSON_stringify JNull = Some ''null''"
| "JSON_stringify (JBool b) = Some (if b then ''true'' else ''false'')"
| "JSON_stringify (JNum text) =
     Some (if text \<in> {''NaN'', ''Infinity'', ''-Infinity''} then ''null'' else text)"
| "JSON_stringify (JStr s) = Some (quote s)"
| "JSON_stringify (JArr xs) = Some (''['' @ join '','' (map stringify_element xs) @ '']'')"
| "JSON_stringify (JObj kvs) =
     Some (''{'' @ join '','' (concat (map stringify_property kvs)) @ ''}'')"
| "stringify_element v = (case JSON_stringify v of None \<Rightarrow> ''null'' | Some s \<Rightarrow> s)"
| "stringify_property (k, v) =
     (case JSON_stringify v of None \<Rightarrow> [] | Some s \<Rightarrow> [quote k @ '':'' @ s])"

definition interpolate :: "string option \<Rightarrow> string" where
  "interpolate r = (case r of None \<Rightarrow> ''undefined'' | Some s \<Rightarrow> s)"

subsection \<open>Truthiness, property access and \<open>Object.entries\<close>\<close>

text \<open>Of the numbers, zero (of either sign, both written \<open>0\<close>) and \<open>NaN\<close> are falsy.\<close>

fun truthy :: "jsval \<Rightarrow> bool" where
  "truthy JUndefined = False"
| "truthy JNull = False"
| "truthy (JBool b) = b"
| "truthy (JNum text) = (text \<noteq> ''0'' \<and> text \<noteq> ''NaN'')"
| "truthy (JStr s) = (s \<noteq> [])"
| "truthy (JArr xs) = True"
| "truthy (JObj kvs) = True"

definition nullish :: "jsval \<Rightarrow> bool" where
  "nullish v = (v = JUndefined \<or> v = JNull)"

text \<open>
  The own enumerable properties of a value, in the order \<open>Object.entries\<close> gives them:
  the elements of an array and the characters of a string under their indices.
\<close>

fun indexed :: "nat \<Rightarrow> 'a list \<Rightarrow> (string \<times> 'a) list" where
  "indexed i [] = []"
| "indexed i (x # xs) = (show_nat i, x) # indexed (Suc i) xs"

fun own_property :: "(string \<times> jsval) list \<Rightarrow> string \<Rightarrow> jsval" where
  "own_property [] p = JUndefined"
| "own_property ((k, v) # kvs) p = (if k = p then v else own_property kvs p)"

text \<open>
  Reading a property: a \<open>TypeError\<close> on \<open>undefined\<close> and \<open>null\<close>, the value of an own
  property, \<open>undefined\<close> where there is none. Of the properties that strings and arrays
  inherit only \<open>length\<close> is read by the drivers.
\<close>

fun get_prop :: "jsval \<Rightarrow> string \<Rightarrow> error + jsval" where
  "get_prop JUndefined p = Inl TypeError"
| "get_prop JNull p = Inl TypeError"
| "get_prop (JObj kvs) p = Inr (own_property kvs p)"
| "get_prop (JStr s) p =
     Inr (if p = ''length'' then JNum (show_nat (length s))
          else own_property (indexed 0 (map (\<lambda>c. JStr [c]) s)) p)"
| "get_prop (JArr xs) p =
     Inr (if p = ''length'' then JNum (show_nat (length xs))
          else own_property (indexed 0 xs) p)"
| "get_prop v p = Inr JUndefined"

fun Object_entries :: "jsval \<Rightarrow> error + (string \<times> jsval) list" where
  "Object_entries JUndefined = Inl TypeError"
| "Object_entries JNull = Inl TypeError"
| "Object_entries (JBool b) = Inr []"
| "Object_entries (JNum text) = Inr []"
| "Object_entries (JStr s) = Inr (indexed 0 (map (\<lambda>c. JStr [c]) s))"
| "Object_entries (JArr xs) = Inr (indexed 0 xs)"
| "Object_entries (JObj kvs) = Inr kvs"

section \<open>BigQuery: schema-directed value encoding\<close>

text \<open>
  \<open>ITableFieldSchema\<close> of the BigQuery client: every property is optional, \<open>fields\<close>
  holds the sub-fields of a \<open>RECORD\<close>.
\<close>

datatype field_schema =
  FieldSchema (name: "string option") (type: "string option")
    (fields': "field_schema list option")

lemma find_smaller:
  "find P fs = Some f \<Longrightarrow> size f < Suc (size_list size fs)"
  by (induction fs) (auto split: if_splits)

text \<open>A template literal around one interpolated value: the value's text, if it has one.\<close>

definition template :: "string \<Rightarrow> jsval \<Rightarrow> string \<Rightarrow> error + string" where
  "template before v after =
     (case ToString v of Inl e \<Rightarrow> Inl e | Inr text \<Rightarrow> Inr (before @ text @ after))"

function parseValue :: "jsval \<Rightarrow> field_schema option \<Rightarrow> error + string" where
  "parseValue v None = Inl TypeError"
| "parseValue v (Some fieldSchema) =
     (if type fieldSchema \<in> {Some ''INTEGER'', Some ''FLOAT'', Some ''NUMERIC'',
                              Some ''BIGNUMERIC'', Some ''BOOLEAN''}
        then template [] v []
      else if type fieldSchema \<in> {Some ''STRING'', Some ''DATE'', Some ''TIME'',
                                   Some ''DATETIME'', Some ''GEOGRAPHY''}
        then template dq v dq
      else if type fieldSchema = Some ''TIMESTAMP''
        then template (''timestamp('' @ dq) v (dq @ '')'')
      else if type fieldSchema = Some ''JSON''
        then Inr (''JSON '' @ sq @ interpolate (JSON_stringify v) @ sq)
      else if type fieldSchema = Some ''BYTES''
        then template (''CAST('' @ dq) v (dq @ '' as BYTES)'')
      else if type fieldSchema = Some ''RECORD''
        then (case Object_entries v of
                Inl e \<Rightarrow> Inl e
              | Inr entries \<Rightarrow>
                  (case map_throw
                          (\<lambda>(k, v'). case fields' fieldSchema of
                                       None \<Rightarrow> Inl TypeError
                                     | Some fs \<Rightarrow> parseValue v' (find (\<lambda>f. name f = Some k) fs))
                          entries of
                     Inl e \<Rightarrow> Inl e
                   | Inr values \<Rightarrow> Inr (''STRUCT('' @ join '','' values @ '')'')))
      else Inl (Error (''Unknown type: '' @ interpolate (type fieldSchema))))"
  by pat_completeness auto
termination
proof (relation "measure (\<lambda>(v, s). case s of None \<Rightarrow> 0 | Some f \<Rightarrow> Suc (size f))")
  show "wf (measure (\<lambda>(v, s). case s of None \<Rightarrow> 0 | Some f \<Rightarrow> Suc (size f)))"
    by simp
next
  fix v :: jsval and fieldSchema :: field_schema and entries x k v' fs
  assume "fields' fieldSchema = Some fs"
  then show "((v', find (\<lambda>f. name f = Some k) fs), (v, Some fieldSchema))
      \<in> measure (\<lambda>(v, s). case s of None \<Rightarrow> 0 | Some f \<Rightarrow> Suc (size f))"
    by (cases fieldSchema) (auto split: option.splits dest: find_smaller)
qed

declare parseValue.simps [simp del]

section \<open>Effects\<close>

text \<open>
  Everything a driver does to the outside is recorded in a trace, in order: the requests it
  sends to the vendor's service and the lines it writes with \<open>console.log\<close>. The entry of
  every driver method is recorded too (\<open>Called\<close>), so that the order in which a proxy calls
  \<open>connect\<close>, the action and \<open>disconnect\<close> can be read off the trace.
\<close>

datatype request =
    TableGet string string
  | TableInsert string string jsval jsval
  | TableGetMetadata string string
  | TableQuery string string string
  | ClientQuery string
  | GetConnections string
  | AccountingCall string "jsval list"

datatype event =
    Called string
  | Request request
  | ConsoleLog string
  | ErrorLogged error

text \<open>
  What both driver classes hold: the client handle (\<open>null\<close> or absent is \<open>None\<close>) and,
  for the model, the trace.
\<close>

record 'c driver =
  client :: "'c option"
  trace :: "event list"

definition emit :: "event \<Rightarrow> ('c, 'z) driver_scheme \<Rightarrow> ('c, 'z) driver_scheme" where
  "emit ev d = d\<lparr>trace := trace d @ [ev]\<rparr>"

text \<open>
  Every method of the two driver classes, and the wrapper each proxy returns, is an
  \<open>async\<close> function. The definition of such a method gives how the promise of a call is
  settled, with the driver as it is by then: \<open>Inl e\<close> is a promise rejected with \<open>e\<close>,
  \<open>Inr v\<close> one fulfilled with \<open>v\<close>. Inside the method a \<open>throw\<close>, and an \<open>await\<close> of
  a promise that is rejected, end the body with that error, which rejects the method's own
  promise; a definition therefore passes the outcome of an awaited call on as it is. The
  functions that are not \<open>async\<close> (\<open>parseValue\<close>, \<open>extractChangeset\<close>) throw to their
  caller, and there \<open>Inl e\<close> is the throw.

  What the caller of an \<open>async\<close> method has when the call returns is the promise: the
  call itself never throws.
\<close>

datatype completion =
    Throws error
  | Returns_promise "error + jsval"

definition async :: "(error + jsval) \<times> 's \<Rightarrow> completion \<times> 's" where
  "async outcome = (Returns_promise (fst outcome), snd outcome)"

text \<open>The \<open>catch\<close> block of both proxies: log the error, throw it again.\<close>

definition log_and_rethrow ::
  "error \<Rightarrow> ('c, 'z) driver_scheme \<Rightarrow> (error + jsval) \<times> ('c, 'z) driver_scheme" where
  "log_and_rethrow err d = (Inl err, emit (ErrorLogged err) d)"

text \<open>The result of \<open>testConnection\<close>, \<open>{ success, message }\<close>.\<close>

definition test_result :: "bool \<Rightarrow> string \<Rightarrow> jsval" where
  "test_result ok msg = JObj [(''success'', JBool ok), (''message'', JStr msg)]"

section \<open>BigQuery: the driver\<close>

text \<open>\<open>TableSchema\<close> of the BigQuery client; \<open>fields\<close> is optional.\<close>

datatype table_schema = TableSchema (table_fields: "field_schema list option")

text \<open>
  The behaviour of what lies outside the repository, one function per call the driver makes:
  \<open>JSON.parse\<close> on the service-account key, and the BigQuery client's \<open>table.get\<close>,
  \<open>table.insert\<close>, \<open>table.getMetadata\<close> (its result is the \<open>schema\<close> property of the
  first element of the metadata, absent for a table without one), \<open>table.query\<close> and
  \<open>client.query\<close>. \<open>Inl\<close> is a thrown error or, for the client's methods, which are
  all awaited, a rejected promise.
\<close>

record bigquery_world =
  JSON_parse :: "jsval \<Rightarrow> error + jsval"
  table_get :: "string \<Rightarrow> string \<Rightarrow> error + jsval"
  table_insert :: "string \<Rightarrow> string \<Rightarrow> jsval \<Rightarrow> jsval \<Rightarrow> error + jsval"
  table_getMetadata :: "string \<Rightarrow> string \<Rightarrow> error + table_schema option"
  table_query :: "string \<Rightarrow> string \<Rightarrow> string \<Rightarrow> error + jsval"
  client_query :: "string \<Rightarrow> error + jsval"

record BigQuery =
  projectId :: string
  credentials :: jsval

record BigQueryDriver = "BigQuery driver" +
  GOOGLE_SERVICE_ACCOUNT_KEY :: jsval
  GCP_PROJECT_ID :: string

text \<open>
  Modelled from the spec: the payload types \<open>IBigQueryInsert\<close>, \<open>IBigQueryUpdate\<close> and
  \<open>IBigQueryDelete\<close>, whose declarations in \<open>./lib/types\<close> are not among the sources.
  Their fields are those the methods destructure; \<open>filters\<close> (the \<open>WHERE\<close> clause) and
  \<open>set\<close> (a string, a list of strings or a mapping) stay untyped values, since the methods
  test them at run time.
\<close>

record table_ref =
  dataset :: string
  table :: string

record IBigQueryInsert = table_ref +
  data :: jsval
  options :: jsval

record IBigQueryDelete = table_ref +
  filters :: jsval

record IBigQueryUpdate = IBigQueryDelete +
  set' :: jsval

type_synonym 'a bq_result = "(error + 'a) \<times> BigQueryDriver"

definition BigQueryDriver_new :: "jsval \<Rightarrow> string \<Rightarrow> BigQueryDriver" where
  "BigQueryDriver_new key project =
     \<lparr>client = None, trace = [], GOOGLE_SERVICE_ACCOUNT_KEY = key, GCP_PROJECT_ID = project\<rparr>"

definition BigQueryDriver_connect :: "bigquery_world \<Rightarrow> jsval \<Rightarrow> BigQueryDriver \<Rightarrow> jsval bq_result" where
  "BigQueryDriver_connect w config d =
     (let d0 = emit (Called ''connect'') d;
          key = (if truthy config
                 then (case get_prop config ''GOOGLE_SERVICE_ACCOUNT_KEY'' of
                         Inl e \<Rightarrow> JUndefined | Inr k \<Rightarrow> k)
                 else JUndefined)
      in case (if truthy key then JSON_parse w key
               else JSON_parse w (GOOGLE_SERVICE_ACCOUNT_KEY d)) of
           Inl e \<Rightarrow> (Inl e, d0)
         | Inr saKey \<Rightarrow>
             (Inr JUndefined,
              d0\<lparr>client := Some \<lparr>projectId = GCP_PROJECT_ID d, credentials = saKey\<rparr>\<rparr>))"

definition BigQueryDriver_disconnect :: "BigQueryDriver \<Rightarrow> jsval bq_result" where
  "BigQueryDriver_disconnect d = (Inr JUndefined, (emit (Called ''disconnect'') d)\<lparr>client := None\<rparr>)"

definition sample_query :: string where
  "sample_query =
     ''SELECT name'' @ nl @
     ''      FROM '' @ bt @ ''bigquery-public-data.usa_names.usa_1910_2013'' @ bt @ nl @
     ''      WHERE state = '' @ sq @ ''TX'' @ sq @ nl @
     ''      LIMIT 1''"

definition BigQueryDriver_testConnection :: "bigquery_world \<Rightarrow> BigQueryDriver \<Rightarrow> jsval bq_result" where
  "BigQueryDriver_testConnection w d =
     (let d0 = emit (Called ''testConnection'') d
      in if client d = None then (Inl (Error ''Connection to BigQuery not established''), d0)
         else
           (let d1 = emit (Request (ClientQuery sample_query)) d0
            in case client_query w sample_query of
                 Inl e \<Rightarrow> (Inl e, d1)
               | Inr res \<Rightarrow>
                   if \<not> truthy res
                   then (Inr (test_result False ''Could not establish connection to BigQuery''), d1)
                   else (Inr (test_result True ''Connection established successfully''), d1)))"

definition table_path :: "BigQueryDriver \<Rightarrow> string \<Rightarrow> string \<Rightarrow> string" where
  "table_path d ds tb = bt @ GCP_PROJECT_ID d @ ''.'' @ ds @ ''.'' @ tb @ bt"

definition insertData :: "bigquery_world \<Rightarrow> IBigQueryInsert \<Rightarrow> BigQueryDriver \<Rightarrow> jsval bq_result"
  where
  "insertData w p d =
     (let d0 = emit (Called ''insertData'') d
      in if client d = None then (Inl (Error ''Connection to BigQuery not established''), d0)
         else
           (let d1 = emit (Request (TableGet (dataset p) (table p))) d0
            in case table_get w (dataset p) (table p) of
                 Inl err \<Rightarrow>
                   (Inr JNull,
                    emit (ConsoleLog (''table '' @ table_path d (dataset p) (table p) @ '' not found'')) d1)
               | Inr _ \<Rightarrow>
                   (let d2 = emit (Request (TableInsert (dataset p) (table p) (data p) (options p))) d1
                    in case table_insert w (dataset p) (table p) (data p) (options p) of
                         Inl err \<Rightarrow> (Inr JNull, emit (ConsoleLog ''Schema-altering action'') d2)
                       | Inr r \<Rightarrow> (Inr r, d2))))"

text \<open>The guard \<open>!filters || !filters.length\<close> of \<open>updateData\<close> and \<open>deleteData\<close>.\<close>

definition no_filters :: "jsval \<Rightarrow> error + bool" where
  "no_filters f =
     (if \<not> truthy f then Inr True
      else (case get_prop f ''length'' of Inl e \<Rightarrow> Inl e | Inr l \<Rightarrow> Inr (\<not> truthy l)))"

text \<open>The callback that \<open>extractChangeset\<close> maps over the entries of the changeset.\<close>

definition changeset_entry :: "table_schema option \<Rightarrow> string \<times> jsval \<Rightarrow> error + string" where
  "changeset_entry schema = (\<lambda>(key, v).
     case schema of
       None \<Rightarrow> Inl TypeError
     | Some sch \<Rightarrow>
         (case table_fields sch of
            None \<Rightarrow> Inl TypeError
          | Some fs \<Rightarrow>
              (case find (\<lambda>field. name field = Some key) fs of
                 None \<Rightarrow> Inl (Error ''Schema-altering update'')
               | Some keySchema \<Rightarrow>
                   (case parseValue v (Some keySchema) of
                      Inl e \<Rightarrow> Inl e
                    | Inr text \<Rightarrow> Inr (key @ ''='' @ text)))))"

definition extractChangeset :: "jsval \<Rightarrow> table_schema option \<Rightarrow> error + string" where
  "extractChangeset s schema =
     (case s of
        JStr text \<Rightarrow> Inr text
      | JArr xs \<Rightarrow>
          (case map_throw element_text xs of
             Inl e \<Rightarrow> Inl e
           | Inr texts \<Rightarrow> Inr (join '','' texts))
      | _ \<Rightarrow>
          (case Object_entries s of
             Inl e \<Rightarrow> Inl e
           | Inr entries \<Rightarrow>
               (case map_throw (changeset_entry schema) entries of
                  Inl e \<Rightarrow> Inl e
                | Inr changeset \<Rightarrow> Inr (join '','' changeset))))"

text \<open>
  The text of the two statements. The interpolations are evaluated from left to right, the
  filters last; \<open>update_query\<close> is given the changeset already extracted.
\<close>

definition update_query :: "BigQueryDriver \<Rightarrow> IBigQueryUpdate \<Rightarrow> string \<Rightarrow> error + string"
  where
  "update_query d p changeset =
     template
       (''UPDATE '' @ table_path d (dataset p) (table p) @ nl @
        ''      SET '' @ changeset @ nl @
        ''      WHERE '')
       (filters p)
       (nl @ ''    '')"

definition updateData :: "bigquery_world \<Rightarrow> IBigQueryUpdate \<Rightarrow> BigQueryDriver \<Rightarrow> jsval bq_result"
  where
  "updateData w p d =
     (let d0 = emit (Called ''updateData'') d
      in if client d = None then (Inl (Error ''Connection to BigQuery not established''), d0)
         else
           (case no_filters (filters p) of
              Inl e \<Rightarrow> (Inl e, d0)
            | Inr True \<Rightarrow> (Inl (Error ''BigQuery UPDATE must have a WHERE clause''), d0)
            | Inr False \<Rightarrow>
                (let d1 = emit (Request (TableGetMetadata (dataset p) (table p))) d0
                 in case table_getMetadata w (dataset p) (table p) of
                      Inl e \<Rightarrow> (Inl e, d1)
                    | Inr schema \<Rightarrow>
                        (case extractChangeset (set' p) schema of
                           Inl e \<Rightarrow> (Inl e, d1)
                         | Inr changeset \<Rightarrow>
                             (case update_query d p changeset of
                                Inl e \<Rightarrow> (Inl e, d1)
                              | Inr updateQuery \<Rightarrow>
                                  (table_query w (dataset p) (table p) updateQuery,
                                   emit (Request (TableQuery (dataset p) (table p) updateQuery))
                                     d1))))))"

definition delete_query :: "BigQueryDriver \<Rightarrow> IBigQueryDelete \<Rightarrow> error + string" where
  "delete_query d p =
     template
       (''DELETE FROM '' @ table_path d (dataset p) (table p) @ nl @
        ''        WHERE '')
       (filters p)
       (nl @ ''    '')"

definition deleteData :: "bigquery_world \<Rightarrow> IBigQueryDelete \<Rightarrow> BigQueryDriver \<Rightarrow> jsval bq_result"
  where
  "deleteData w p d =
     (let d0 = emit (Called ''deleteData'') d
      in if client d = None then (Inl (Error ''Connection to BigQuery not established''), d0)
         else
           (case no_filters (filters p) of
              Inl e \<Rightarrow> (Inl e, d0)
            | Inr True \<Rightarrow> (Inl (Error ''BigQuery DELETE must have a WHERE clause''), d0)
            | Inr False \<Rightarrow>
                (case delete_query d p of
                   Inl e \<Rightarrow> (Inl e, d0)
                 | Inr deleteQuery \<Rightarrow>
                     (let d1 = emit (Request (TableQuery (dataset p) (table p) deleteQuery)) d0
                      in case table_query w (dataset p) (table p) deleteQuery of
                           Inl e \<Rightarrow> (Inl e, d1)
                         | Inr _ \<Rightarrow> (Inr JUndefined, d1)))))"

subsection \<open>The lifecycle proxy of the BigQuery driver\<close>

text \<open>
  The \<open>get\<close> trap answers every member of the driver that is a function with the same
  \<open>async\<close> wrapper, which calls \<open>driver[prop](payload)\<close> between \<open>connect\<close> and
  \<open>disconnect\<close>; a call of the wrapper returns a promise. The calls modelled are those of
  the methods the class declares, each with its payload: \<open>connect\<close> takes its optional
  configuration, the three actions take their payload types, \<open>disconnect\<close> and
  \<open>testConnection\<close> ignore the payload. The functions a driver inherits from
  \<open>Object.prototype\<close> are wrapped in the same way and are not modelled.
\<close>

datatype bq_call =
    Connect jsval
  | Disconnect
  | TestConnection
  | InsertData IBigQueryInsert
  | UpdateData IBigQueryUpdate
  | DeleteData IBigQueryDelete

fun invoke :: "bigquery_world \<Rightarrow> bq_call \<Rightarrow> BigQueryDriver \<Rightarrow> jsval bq_result" where
  "invoke w (Connect config) d = BigQueryDriver_connect w config d"
| "invoke w Disconnect d = BigQueryDriver_disconnect d"
| "invoke w TestConnection d = BigQueryDriver_testConnection w d"
| "invoke w (InsertData p) d = insertData w p d"
| "invoke w (UpdateData p) d = updateData w p d"
| "invoke w (DeleteData p) d = deleteData w p d"

text \<open>The member name that selects each call.\<close>

definition method_name :: "bq_call \<Rightarrow> string" where
  "method_name c =
     (case c of
        Connect _ \<Rightarrow> ''connect''
      | Disconnect \<Rightarrow> ''disconnect''
      | TestConnection \<Rightarrow> ''testConnection''
      | InsertData _ \<Rightarrow> ''insertData''
      | UpdateData _ \<Rightarrow> ''updateData''
      | DeleteData _ \<Rightarrow> ''deleteData'')"

definition BigQuery_getProxyDriver ::
  "bigquery_world \<Rightarrow> bq_call \<Rightarrow> BigQueryDriver \<Rightarrow> completion \<times> BigQueryDriver" where
  "BigQuery_getProxyDriver w c d =
     async
       (case BigQueryDriver_connect w JUndefined d of
          (Inl err, d1) \<Rightarrow> log_and_rethrow err d1
        | (Inr _, d1) \<Rightarrow>
            (case invoke w c d1 of
               (Inl err, d2) \<Rightarrow> log_and_rethrow err d2
             | (Inr result, d2) \<Rightarrow>
                 (case BigQueryDriver_disconnect d2 of
                    (Inl err, d3) \<Rightarrow> log_and_rethrow err d3
                  | (Inr _, d3) \<Rightarrow> (Inr result, d3))))"

section \<open>Xero: the driver\<close>

subsection \<open>String operations used by \<open>performAction\<close>\<close>

fun String_split :: "char \<Rightarrow> string \<Rightarrow> string list" where
  "String_split c [] = [[]]"
| "String_split c (x # xs) =
     (if x = c then [] # String_split c xs
      else (case String_split c xs of [] \<Rightarrow> [[x]] | p # ps \<Rightarrow> (x # p) # ps))"

definition is_space :: "char \<Rightarrow> bool" where
  "is_space c = (c \<in> {CHR 0x20, CHR 0x09, CHR 0x0A, CHR 0x0B, CHR 0x0C, CHR 0x0D, CHR 0xA0})"

definition String_trim :: "string \<Rightarrow> string" where
  "String_trim s = rev (dropWhile is_space (rev (dropWhile is_space s)))"

text \<open>
  The first group of the first match of \<open>/\((.*?)\)/\<close>: the text between the first
  \<open>(\<close> and the next \<open>)\<close> that have no line terminator between them.
\<close>

fun upto_close :: "string \<Rightarrow> string option" where
  "upto_close [] = None"
| "upto_close (c # cs) =
     (if c = CHR '')'' then Some []
      else if c = CHR 0x0A \<or> c = CHR 0x0D then None
      else map_option ((#) c) (upto_close cs))"

fun match_parens :: "string \<Rightarrow> string option" where
  "match_parens [] = None"
| "match_parens (c # cs) =
     (if c = CHR ''(''
      then (case upto_close cs of Some g \<Rightarrow> Some g | None \<Rightarrow> match_parens cs)
      else match_parens cs)"

definition nth_opt :: "'a list \<Rightarrow> nat \<Rightarrow> 'a option" where
  "nth_opt xs i = (if i < length xs then Some (xs ! i) else None)"

subsection \<open>The vendor side\<close>

text \<open>
  A function of the vendor's \<open>accountingApi\<close>: the text \<open>Function.prototype.toString\<close>
  gives for it, and what a call with the given arguments does (\<open>Inl\<close>: it throws or its
  promise is rejected; \<open>Inr\<close>: the value it resolves to).
\<close>

record api_function =
  fn_source :: string
  fn_call :: "jsval list \<Rightarrow> error + jsval"

text \<open>
  \<open>setTokenSet\<close> is the client's method of that name, given the token set: \<open>Some e\<close>
  when it throws \<open>e\<close>. \<open>get_connections\<close> is the request
  \<open>GET https://api.xero.com/connections\<close> with the given \<open>Authorization\<close> header; the
  result is the \<open>tenantId\<close> of each item of the response's \<open>data\<close>. \<open>accountingApi\<close>
  gives the members of the client's \<open>accountingApi\<close> that are functions, by name.
\<close>

record xero_world =
  setTokenSet :: "jsval \<Rightarrow> error option"
  get_connections :: "string \<Rightarrow> error + string list"
  accountingApi :: "string \<Rightarrow> api_function option"

record XeroClient =
  clientId :: jsval
  clientSecret :: jsval
  redirectUris :: "jsval list"
  scopes :: jsval
  httpTimeout :: int
  tokenSet :: jsval

text \<open>\<open>tenantIds\<close> has no initial value: \<open>None\<close> until the first \<open>connect\<close>.\<close>

record XeroDriver = "XeroClient driver" +
  tenantIds :: "string list option"
  XERO_CLIENT_ID :: jsval
  XERO_CLIENT_SECRET :: jsval

type_synonym 'a xero_result = "(error + 'a) \<times> XeroDriver"

definition XeroDriver_new :: "jsval \<Rightarrow> jsval \<Rightarrow> XeroDriver" where
  "XeroDriver_new cid secret =
     \<lparr>client = None, trace = [], tenantIds = None,
      XERO_CLIENT_ID = cid, XERO_CLIENT_SECRET = secret\<rparr>"

text \<open>
  The arguments of \<open>new XeroClient(...)\<close>, evaluated in the order written; any of the
  property reads may throw.
\<close>

definition client_options :: "jsval \<Rightarrow> XeroDriver \<Rightarrow> error + XeroClient" where
  "client_options config d =
     (case get_prop config ''XERO_CLIENT_ID'' of
        Inl e \<Rightarrow> Inl e
      | Inr cid \<Rightarrow>
     (case get_prop config ''XERO_CLIENT_SECRET'' of
        Inl e \<Rightarrow> Inl e
      | Inr secret \<Rightarrow>
     (case get_prop config ''oauth2'' of
        Inl e \<Rightarrow> Inl e
      | Inr oauth2 \<Rightarrow>
     (case get_prop oauth2 ''redirectUri'' of
        Inl e \<Rightarrow> Inl e
      | Inr uri \<Rightarrow>
     (case get_prop oauth2 ''scopes'' of
        Inl e \<Rightarrow> Inl e
      | Inr sc \<Rightarrow>
          Inr \<lparr>clientId = (if truthy cid then cid else XERO_CLIENT_ID d),
               clientSecret = (if truthy secret then secret else XERO_CLIENT_SECRET d),
               redirectUris = [uri], scopes = sc, httpTimeout = 3000,
               tokenSet = JUndefined\<rparr>)))))"

definition XeroDriver_connect :: "xero_world \<Rightarrow> jsval \<Rightarrow> XeroDriver \<Rightarrow> jsval xero_result" where
  "XeroDriver_connect w config d =
     (let d0 = emit (Called ''connect'') d
      in case client_options config d of
           Inl e \<Rightarrow> (Inl e, d0)
         | Inr c \<Rightarrow>
             (let ts = (case get_prop config ''oauth2'' of
                          Inl e \<Rightarrow> JUndefined
                        | Inr oauth2 \<Rightarrow>
                            (case get_prop oauth2 ''resolved'' of
                               Inl e \<Rightarrow> JUndefined | Inr r \<Rightarrow> r));
                  d1 = d0\<lparr>client := Some c\<rparr>
              in case setTokenSet w ts of
                   Some e \<Rightarrow> (Inl e, d1)
                 | None \<Rightarrow>
                     (let d2 = d1\<lparr>client := Some (c\<lparr>tokenSet := ts\<rparr>)\<rparr>
                      in case get_prop ts ''access_token'' of
                           Inl e \<Rightarrow> (Inl e, d2)
                         | Inr token \<Rightarrow>
                             (case template ''Bearer '' token [] of
                                Inl e \<Rightarrow> (Inl e, d2)
                              | Inr auth \<Rightarrow>
                                  (let d3 = emit (Request (GetConnections auth)) d2
                                   in case get_connections w auth of
                                        Inl e \<Rightarrow> (Inl e, d3)
                                      | Inr ids \<Rightarrow>
                                          (Inr JUndefined, d3\<lparr>tenantIds := Some ids\<rparr>))))))"

definition XeroDriver_disconnect :: "XeroDriver \<Rightarrow> jsval xero_result" where
  "XeroDriver_disconnect d =
     (Inr JUndefined, (emit (Called ''disconnect'') d)\<lparr>tenantIds := Some [], client := None\<rparr>)"

definition XeroDriver_testConnection :: "xero_world \<Rightarrow> XeroDriver \<Rightarrow> jsval xero_result" where
  "XeroDriver_testConnection w d =
     (let d0 = emit (Called ''testConnection'') d;
          failed = test_result False ''Could not establish connection to Xero''
      in case client d of
           None \<Rightarrow> (Inr failed, d0)
         | Some c \<Rightarrow>
             (case tenantIds d of
                None \<Rightarrow> (Inr failed, d0)
              | Some ids \<Rightarrow>
                  (case accountingApi w ''getAccounts'' of
                     None \<Rightarrow> (Inr failed, d0)
                   | Some f \<Rightarrow>
                       (let arg = (case ids of [] \<Rightarrow> JUndefined | t # _ \<Rightarrow> JStr t);
                            d1 = emit (Request (AccountingCall ''getAccounts'' [arg])) d0
                        in case fn_call f [arg] of
                             Inl e \<Rightarrow> (Inr failed, d1)
                           | Inr _ \<Rightarrow>
                               (Inr (test_result True ''Connection established successfully''),
                                d1)))))"

text \<open>\<open>err.response\<close> in the \<open>catch\<close> block of the tenant loop.\<close>

fun error_response :: "error \<Rightarrow> jsval" where
  "error_response (VendorError r) = r"
| "error_response (Error msg) = JUndefined"
| "error_response TypeError = JUndefined"

text \<open>
  The keys of an object that are array indices: the decimal text, without leading zeros,
  of a number up to 4294967294. \<open>Object.entries\<close> gives them first, in ascending
  order, and the other keys after them in the order they were created.
\<close>

definition digit_value :: "char \<Rightarrow> nat" where
  "digit_value c = of_char c - 48"

definition array_index :: "string \<Rightarrow> nat option" where
  "array_index k =
     (if k \<noteq> [] \<and> (\<forall>c \<in> set k. c \<in> set ''0123456789'') \<and> (k = ''0'' \<or> hd k \<noteq> CHR ''0'') \<and>
         foldl (\<lambda>n c. 10 * n + digit_value c) 0 k \<le> 4294967294
      then Some (foldl (\<lambda>n c. 10 * n + digit_value c) 0 k)
      else None)"

fun replace_value :: "(string \<times> jsval) list \<Rightarrow> string \<Rightarrow> jsval \<Rightarrow> (string \<times> jsval) list" where
  "replace_value [] k v = []"
| "replace_value ((k', v') # kvs) k v =
     (if k' = k then (k, v) # kvs else (k', v') # replace_value kvs k v)"

fun insert_index ::
  "nat \<Rightarrow> string \<times> jsval \<Rightarrow> (string \<times> jsval) list \<Rightarrow> (string \<times> jsval) list" where
  "insert_index n kv [] = [kv]"
| "insert_index n kv ((k', v') # kvs) =
     (case array_index k' of
        Some m \<Rightarrow> if m < n then (k', v') # insert_index n kv kvs else kv # (k', v') # kvs
      | None \<Rightarrow> kv # (k', v') # kvs)"

text \<open>
  \<open>responses[tenantId] = value\<close> on the object \<open>responses\<close>, as its own properties.
  A property that exists keeps its place; a new one is created, among the array indices
  or after all others. The key \<open>__proto__\<close> creates no property: the assignment reaches
  the setter that \<open>Object.prototype\<close> has under this name, which replaces the prototype
  of \<open>responses\<close> when the value is an object and does nothing otherwise.
\<close>

definition assign :: "(string \<times> jsval) list \<Rightarrow> string \<Rightarrow> jsval \<Rightarrow> (string \<times> jsval) list" where
  "assign kvs k v =
     (if k = ''__proto__'' then kvs
      else if has_own kvs k then replace_value kvs k v
      else (case array_index k of
              Some n \<Rightarrow> insert_index n (k, v) kvs
            | None \<Rightarrow> kvs @ [(k, v)]))"

definition tenant_args :: "string list \<Rightarrow> jsval \<Rightarrow> string \<Rightarrow> error + jsval list" where
  "tenant_args methodParams params tenantId =
     map_throw (\<lambda>param. if param = ''xeroTenantId'' then Inr (JStr tenantId)
                         else get_prop params param) methodParams"

definition tenant_entry :: "api_function \<Rightarrow> jsval list \<Rightarrow> jsval" where
  "tenant_entry f args =
     (case fn_call f args of
        Inl err \<Rightarrow> error_response err
      | Inr res \<Rightarrow>
          (case get_prop res ''body'' of Inl err \<Rightarrow> error_response err | Inr body \<Rightarrow> body))"

fun tenant_loop ::
  "api_function \<Rightarrow> string \<Rightarrow> string list \<Rightarrow> jsval \<Rightarrow> string list \<Rightarrow>
   (string \<times> jsval) list \<Rightarrow> XeroDriver \<Rightarrow> (string \<times> jsval) list xero_result" where
  "tenant_loop f method methodParams params [] responses d = (Inr responses, d)"
| "tenant_loop f method methodParams params (tenantId # rest) responses d =
     (case tenant_args methodParams params tenantId of
        Inl e \<Rightarrow> (Inl e, d)
      | Inr args \<Rightarrow>
          tenant_loop f method methodParams params rest
            (assign responses tenantId (tenant_entry f args))
            (emit (Request (AccountingCall method args)) d))"

definition reflect_params :: "api_function \<Rightarrow> string list" where
  "reflect_params f =
     map String_trim
       (String_split CHR '',''
          (case match_parens (fn_source f) of None \<Rightarrow> [] | Some g \<Rightarrow> g))"

text \<open>
  \<open>prop.toString()\<close>: a \<open>TypeError\<close> on \<open>undefined\<close> and \<open>null\<close>, otherwise the
  text of the value, if it has one.
\<close>

definition toString_method :: "jsval \<Rightarrow> error + string" where
  "toString_method v = (if nullish v then Inl TypeError else ToString v)"

definition performAction :: "xero_world \<Rightarrow> jsval \<Rightarrow> jsval \<Rightarrow> XeroDriver \<Rightarrow> jsval xero_result" where
  "performAction w prop params d =
     (let d0 = emit (Called ''performAction'') d
      in case toString_method prop of
           Inl e \<Rightarrow> (Inl e, d0)
         | Inr text \<Rightarrow>
           (let parts = String_split CHR ''.'' text;
                api = nth_opt parts 0;
                method = interpolate (nth_opt parts 1)
            in if api = Some ''accounting''
               then (case client d of
                       None \<Rightarrow> (Inl TypeError, d0)
                     | Some c \<Rightarrow>
                         (case accountingApi w method of
                            None \<Rightarrow>
                              (Inl (Error (''Method '' @ text @ ''() for Xero not found'')), d0)
                          | Some targetMethod \<Rightarrow>
                              (case tenantIds d of
                                 None \<Rightarrow> (Inl TypeError, d0)
                               | Some ids \<Rightarrow>
                                   (case tenant_loop targetMethod method
                                           (reflect_params targetMethod) params ids [] d0 of
                                      (Inl e, d1) \<Rightarrow> (Inl e, d1)
                                    | (Inr responses, d1) \<Rightarrow> (Inr (JObj responses), d1)))))
               else (Inl (Error (''API '' @ interpolate api @ '' for Xero not found'')), d0)))"

subsection \<open>The lifecycle proxy of the Xero driver\<close>

text \<open>
  The members of a driver that are functions: the methods the class declares and the
  functions every object inherits from \<open>Object.prototype\<close>.
\<close>

definition XeroDriver_methods :: "string list" where
  "XeroDriver_methods = [''connect'', ''disconnect'', ''testConnection'', ''performAction'']"

definition Object_prototype_functions :: "string list" where
  "Object_prototype_functions =
     [''constructor'', ''hasOwnProperty'', ''isPrototypeOf'', ''propertyIsEnumerable'',
      ''toLocaleString'', ''toString'', ''valueOf'', ''__defineGetter__'',
      ''__defineSetter__'', ''__lookupGetter__'', ''__lookupSetter__'']"

definition is_function_member :: "string \<Rightarrow> bool" where
  "is_function_member prop = (prop \<in> set (XeroDriver_methods @ Object_prototype_functions))"

text \<open>
  The \<open>get\<close> trap followed by the call of what it returned, for a member name, the two
  arguments of the call and the configuration the factory was given. \<open>tenantIds\<close> and
  \<open>client\<close> are answered with the field, which is not callable, and a member that is not
  a function is refused: these two errors are thrown, by the call and by the trap. For
  every member that is a function the trap returns the \<open>async\<close> wrapper, whose call
  returns a promise: \<open>connect\<close>, \<open>disconnect\<close> and \<open>testConnection\<close> are passed on,
  and every other name, whatever function it stands for, runs \<open>performAction\<close> between
  \<open>connect\<close> and \<open>disconnect\<close>.
\<close>

definition Xero_getProxyDriver ::
  "xero_world \<Rightarrow> jsval \<Rightarrow> string \<Rightarrow> jsval \<Rightarrow> jsval \<Rightarrow> XeroDriver \<Rightarrow> completion \<times> XeroDriver"
  where
  "Xero_getProxyDriver w config prop payload params d =
     (if prop = ''tenantIds'' \<or> prop = ''client'' then (Throws TypeError, d)
      else if \<not> is_function_member prop
        then (Throws (Error (''Method '' @ prop @ ''() not found'')), d)
      else
        async
          (if prop = ''connect''
             then XeroDriver_connect w (if truthy payload then payload else config) d
           else if prop = ''disconnect'' then XeroDriver_disconnect d
           else if prop = ''testConnection'' then XeroDriver_testConnection w d
           else
             (case XeroDriver_connect w (if truthy config then config else payload) d of
                (Inl err, d1) \<Rightarrow> log_and_rethrow err d1
              | (Inr _, d1) \<Rightarrow>
                  (case performAction w payload params d1 of
                     (Inl err, d2) \<Rightarrow> log_and_rethrow err d2
                   | (Inr result, d2) \<Rightarrow>
                       (case XeroDriver_disconnect d2 of
                          (Inl err, d3) \<Rightarrow> log_and_rethrow err d3
                        | (Inr _, d3) \<Rightarrow> (Inr result, d3))))))"

section \<open>Reading a trace\<close>

text \<open>
  The names of the driver methods entered, the requests sent and the errors the proxy
  logged, each in the order of the trace.
\<close>

definition calls :: "event list \<Rightarrow> string list" where
  "calls tr = concat (map (\<lambda>ev. case ev of Called n \<Rightarrow> [n] | _ \<Rightarrow> []) tr)"

definition requests :: "event list \<Rightarrow> request list" where
  "requests tr = concat (map (\<lambda>ev. case ev of Request r \<Rightarrow> [r] | _ \<Rightarrow> []) tr)"

definition logged :: "event list \<Rightarrow> error list" where
  "logged tr = concat (map (\<lambda>ev. case ev of ErrorLogged e \<Rightarrow> [e] | _ \<Rightarrow> []) tr)"

section \<open>Sample remotes\<close>

text \<open>
  A BigQuery project with one table, \<open>people\<close>, of three columns, that rejects the insertion
  of an empty batch and every query of the client itself; the service-account key is the
  JSON text of an empty object.
\<close>

definition people_fields :: "field_schema list" where
  "people_fields =
     [FieldSchema (Some ''name'') (Some ''STRING'') None,
      FieldSchema (Some ''age'') (Some ''INTEGER'') None,
      FieldSchema (Some ''address'') (Some ''RECORD'')
        (Some [FieldSchema (Some ''city'') (Some ''STRING'') None])]"

definition people_schema :: table_schema where
  "people_schema = TableSchema (Some people_fields)"

definition sample_bigquery :: bigquery_world where
  "sample_bigquery =
     \<lparr>JSON_parse = (\<lambda>k. if k = JStr ''{}'' then Inr (JObj [])
                         else Inl (Error ''Unexpected end of JSON input'')),
      table_get = (\<lambda>ds tb. if tb = ''people'' then Inr (JArr [])
                            else Inl (VendorError (JStr ''Not found''))),
      table_insert = (\<lambda>ds tb rows opts. if rows = JArr [] then Inl (VendorError (JStr ''No rows''))
                                          else Inr (JArr [])),
      table_getMetadata = (\<lambda>ds tb. if tb = ''people'' then Inr (Some people_schema)
                                    else Inl (VendorError (JStr ''Not found''))),
      table_query = (\<lambda>ds tb q. Inr (JArr [])),
      client_query = (\<lambda>q. Inl (VendorError (JStr ''Access Denied'')))\<rparr>"

definition sample_driver :: BigQueryDriver where
  "sample_driver = BigQueryDriver_new (JStr ''{}'') ''proj''"

definition connected_driver :: BigQueryDriver where
  "connected_driver =
     sample_driver\<lparr>client := Some \<lparr>projectId = ''proj'', credentials = JObj []\<rparr>\<rparr>"

text \<open>
  A Xero connection of three tenants; \<open>getInvoice\<close> fails for the second one with an
  error that carries the response of the service, a status code and a body.
\<close>

definition not_found_response :: jsval where
  "not_found_response =
     JObj [(''statusCode'', JNum ''404''), (''body'', JStr ''Invoice not found'')]"

definition getInvoice :: api_function where
  "getInvoice =
     \<lparr>fn_source = ''getInvoice(xeroTenantId, invoiceID) { }'',
      fn_call = (\<lambda>args. if args = [JStr ''t2'', JStr ''inv'']
                          then Inl (VendorError (not_found_response))
                          else Inr (JObj [(''body'', JArr args)]))\<rparr>"

definition sample_xero :: xero_world where
  "sample_xero =
     \<lparr>setTokenSet = (\<lambda>ts. None),
      get_connections = (\<lambda>auth. if auth = ''Bearer tok'' then Inr [''t1'', ''t2'', ''t3'']
                                  else Inl (VendorError (JObj [(''status'', JNum ''401'')]))),
      accountingApi = (\<lambda>m. if m = ''getInvoice'' then Some getInvoice else None)\<rparr>"

definition sample_config :: jsval where
  "sample_config =
     JObj [(''oauth2'', JObj [(''redirectUri'', JStr ''https://host/cb''),
                               (''scopes'', JStr ''accounting.transactions''),
                               (''resolved'', JObj [(''access_token'', JStr ''tok'')])])]"

definition sample_xero_driver :: XeroDriver where
  "sample_xero_driver = XeroDriver_new (JStr ''id'') (JStr ''secret'')"

text \<open>A BigQuery driver whose service-account key is not JSON.\<close>

definition unparsable_driver :: BigQueryDriver where
  "unparsable_driver = BigQueryDriver_new (JStr ''{'') ''proj''"

text \<open>The Xero driver as \<open>connect\<close> with the sample configuration leaves it.\<close>

definition connected_xero_driver :: XeroDriver where
  "connected_xero_driver =
     sample_xero_driver
       \<lparr>client := Some \<lparr>clientId = JStr ''id'', clientSecret = JStr ''secret'',
                         redirectUris = [JStr ''https://host/cb''],
                         scopes = JStr ''accounting.transactions'', httpTimeout = 3000,
                         tokenSet = JObj [(''access_token'', JStr ''tok'')]\<rparr>,
        tenantIds := Some [''t1'', ''t2'', ''t3'']\<rparr>"

section \<open>Schema-directed value encoding\<close>

subsection \<open>One lemma for each branch of \<open>parseValue\<close>\<close>

lemma parseValue_unquoted:
  "type s \<in> {Some ''INTEGER'', Some ''FLOAT'', Some ''NUMERIC'', Some ''BIGNUMERIC'',
              Some ''BOOLEAN''} \<Longrightarrow> parseValue v (Some s) = template [] v []"
  by (simp only: parseValue.simps if_True)

lemma parseValue_quoted:
  "type s \<in> {Some ''STRING'', Some ''DATE'', Some ''TIME'', Some ''DATETIME'',
              Some ''GEOGRAPHY''} \<Longrightarrow> parseValue v (Some s) = template dq v dq"
  by (subst parseValue.simps) auto

lemma parseValue_timestamp:
  "type s = Some ''TIMESTAMP'' \<Longrightarrow>
   parseValue v (Some s) = template (''timestamp('' @ dq) v (dq @ '')'')"
  by (subst parseValue.simps) simp

lemma parseValue_json:
  "type s = Some ''JSON'' \<Longrightarrow>
   parseValue v (Some s) = Inr (''JSON '' @ sq @ interpolate (JSON_stringify v) @ sq)"
  by (subst parseValue.simps) simp

lemma parseValue_bytes:
  "type s = Some ''BYTES'' \<Longrightarrow>
   parseValue v (Some s) = template (''CAST('' @ dq) v (dq @ '' as BYTES)'')"
  by (subst parseValue.simps) simp

lemma parseValue_unknown:
  "type s \<notin> {Some ''INTEGER'', Some ''FLOAT'', Some ''NUMERIC'', Some ''BIGNUMERIC'',
              Some ''BOOLEAN'', Some ''STRING'', Some ''DATE'', Some ''TIME'',
              Some ''DATETIME'', Some ''GEOGRAPHY'', Some ''TIMESTAMP'', Some ''JSON'',
              Some ''BYTES'', Some ''RECORD''} \<Longrightarrow>
   parseValue v (Some s) = Inl (Error (''Unknown type: '' @ interpolate (type s)))"
  by (subst parseValue.simps) (simp only: insert_iff empty_iff de_Morgan_disj if_False simp_thms)

lemma parseValue_struct:
  "type s = Some ''RECORD'' \<Longrightarrow>
   parseValue v (Some s) =
     (case Object_entries v of
        Inl e \<Rightarrow> Inl e
      | Inr entries \<Rightarrow>
          (case map_throw
                  (\<lambda>(k, v'). case fields' s of
                               None \<Rightarrow> Inl TypeError
                             | Some fs \<Rightarrow> parseValue v' (find (\<lambda>f. name f = Some k) fs))
                  entries of
             Inl e \<Rightarrow> Inl e
           | Inr values \<Rightarrow> Inr (''STRUCT('' @ join '','' values @ '')'')))"
  by (subst parseValue.simps) simp

lemma parseValue_text_throws:
  assumes "type s \<in> {Some ''INTEGER'', Some ''FLOAT'', Some ''NUMERIC'', Some ''BIGNUMERIC'',
              Some ''BOOLEAN'', Some ''STRING'', Some ''DATE'', Some ''TIME'',
              Some ''DATETIME'', Some ''GEOGRAPHY'', Some ''TIMESTAMP'', Some ''BYTES''}"
    and "ToString v = Inl e"
  shows "parseValue v (Some s) = Inl e"
proof -
  have t: "template a v b = Inl e" for a b
    using assms(2) by (simp add: template_def)
  from assms(1) consider
      "type s \<in> {Some ''INTEGER'', Some ''FLOAT'', Some ''NUMERIC'', Some ''BIGNUMERIC'',
              Some ''BOOLEAN''}"
    | "type s \<in> {Some ''STRING'', Some ''DATE'', Some ''TIME'', Some ''DATETIME'',
              Some ''GEOGRAPHY''}"
    | "type s = Some ''TIMESTAMP''" | "type s = Some ''BYTES''"
    by blast
  then show ?thesis
  proof cases
    case 1 then show ?thesis by (simp only: parseValue_unquoted t)
  next
    case 2 then show ?thesis by (simp only: parseValue_quoted t)
  next
    case 3 then show ?thesis by (simp only: parseValue_timestamp t)
  next
    case 4 then show ?thesis by (simp only: parseValue_bytes t)
  qed
qed

lemma map_throw_all2:
  "list_all2 (\<lambda>x r. f x = Inr r) xs rs \<Longrightarrow> map_throw f xs = Inr rs"
  by (induction xs rs rule: list_all2_induct) auto

subsection \<open>Scalar types\<close>

text \<open>
  Claim C1, as the code has it. For a field schema \<open>s\<close> and a value \<open>v\<close> whose conversion
  to a string gives the text \<open>t\<close>: when the declared type is INTEGER, FLOAT, NUMERIC,
  BIGNUMERIC or BOOLEAN the rendering is \<open>t\<close>, unquoted; when it is STRING, DATE, TIME,
  DATETIME or GEOGRAPHY it is \<open>t\<close> between double quotes; TIMESTAMP gives
  \<open>timestamp("t")\<close>; BYTES gives \<open>CAST("t" as BYTES)\<close>, the keyword \<open>as\<close> in lower
  case. Under these twelve types a value whose conversion throws makes \<open>parseValue\<close>
  throw the same error. JSON gives \<open>JSON '...'\<close> around the JSON serialization of any
  value. A type outside the supported set (the thirteen above and RECORD) is the error
  \<open>Unknown type: <type>\<close>, whatever the value.
\<close>

theorem parseValue_scalar_forms:
  "(type s \<in> {Some ''INTEGER'', Some ''FLOAT'', Some ''NUMERIC'', Some ''BIGNUMERIC'',
              Some ''BOOLEAN''} \<and> ToString v = Inr t
      \<longrightarrow> parseValue v (Some s) = Inr t) \<and>
   (type s \<in> {Some ''STRING'', Some ''DATE'', Some ''TIME'', Some ''DATETIME'',
              Some ''GEOGRAPHY''} \<and> ToString v = Inr t
      \<longrightarrow> parseValue v (Some s) = Inr (dq @ t @ dq)) \<and>
   (type s = Some ''TIMESTAMP'' \<and> ToString v = Inr t
      \<longrightarrow> parseValue v (Some s) = Inr (''timestamp('' @ dq @ t @ dq @ '')'')) \<and>
   (type s = Some ''JSON''
      \<longrightarrow> parseValue v (Some s) = Inr (''JSON '' @ sq @ interpolate (JSON_stringify v) @ sq)) \<and>
   (type s = Some ''BYTES'' \<and> ToString v = Inr t
      \<longrightarrow> parseValue v (Some s) = Inr (''CAST('' @ dq @ t @ dq @ '' as BYTES)'')) \<and>
   (type s \<in> {Some ''INTEGER'', Some ''FLOAT'', Some ''NUMERIC'', Some ''BIGNUMERIC'',
              Some ''BOOLEAN'', Some ''STRING'', Some ''DATE'', Some ''TIME'',
              Some ''DATETIME'', Some ''GEOGRAPHY'', Some ''TIMESTAMP'', Some ''BYTES''} \<and>
    ToString v = Inl e
      \<longrightarrow> parseValue v (Some s) = Inl e) \<and>
   (type s \<notin> {Some ''INTEGER'', Some ''FLOAT'', Some ''NUMERIC'', Some ''BIGNUMERIC'',
              Some ''BOOLEAN'', Some ''STRING'', Some ''DATE'', Some ''TIME'',
              Some ''DATETIME'', Some ''GEOGRAPHY'', Some ''TIMESTAMP'', Some ''JSON'',
              Some ''BYTES'', Some ''RECORD''}
      \<longrightarrow> parseValue v (Some s) = Inl (Error (''Unknown type: '' @ interpolate (type s))))"
proof (intro conjI impI)
  assume "type s \<in> {Some ''INTEGER'', Some ''FLOAT'', Some ''NUMERIC'', Some ''BIGNUMERIC'',
              Some ''BOOLEAN''} \<and> ToString v = Inr t"
  then show "parseValue v (Some s) = Inr t"
    by (simp only: parseValue_unquoted) (simp add: template_def)
next
  assume "type s \<in> {Some ''STRING'', Some ''DATE'', Some ''TIME'', Some ''DATETIME'',
              Some ''GEOGRAPHY''} \<and> ToString v = Inr t"
  then show "parseValue v (Some s) = Inr (dq @ t @ dq)"
    by (simp only: parseValue_quoted) (simp add: template_def)
next
  assume "type s = Some ''TIMESTAMP'' \<and> ToString v = Inr t"
  then show "parseValue v (Some s) = Inr (''timestamp('' @ dq @ t @ dq @ '')'')"
    by (simp only: parseValue_timestamp) (simp add: template_def)
next
  assume "type s = Some ''JSON''"
  then show "parseValue v (Some s) = Inr (''JSON '' @ sq @ interpolate (JSON_stringify v) @ sq)"
    by (rule parseValue_json)
next
  assume "type s = Some ''BYTES'' \<and> ToString v = Inr t"
  then show "parseValue v (Some s) = Inr (''CAST('' @ dq @ t @ dq @ '' as BYTES)'')"
    by (simp only: parseValue_bytes) (simp add: template_def)
next
  assume "type s \<in> {Some ''INTEGER'', Some ''FLOAT'', Some ''NUMERIC'', Some ''BIGNUMERIC'',
              Some ''BOOLEAN'', Some ''STRING'', Some ''DATE'', Some ''TIME'',
              Some ''DATETIME'', Some ''GEOGRAPHY'', Some ''TIMESTAMP'', Some ''BYTES''} \<and>
    ToString v = Inl e"
  then show "parseValue v (Some s) = Inl e"
    using parseValue_text_throws by blast
next
  assume "type s \<notin> {Some ''INTEGER'', Some ''FLOAT'', Some ''NUMERIC'', Some ''BIGNUMERIC'',
              Some ''BOOLEAN'', Some ''STRING'', Some ''DATE'', Some ''TIME'',
              Some ''DATETIME'', Some ''GEOGRAPHY'', Some ''TIMESTAMP'', Some ''JSON'',
              Some ''BYTES'', Some ''RECORD''}"
  then show "parseValue v (Some s) = Inl (Error (''Unknown type: '' @ interpolate (type s)))"
    by (rule parseValue_unknown)
qed

theorem parseValue_scalar_forms_witness:
  "parseValue (JNum ''42'') (Some (FieldSchema (Some ''n'') (Some ''INTEGER'') None))
     = Inr ''42'' \<and>
   parseValue (JNum ''1e+21'') (Some (FieldSchema (Some ''f'') (Some ''FLOAT'') None))
     = Inr ''1e+21'' \<and>
   parseValue (JStr ''x'') (Some (FieldSchema (Some ''s'') (Some ''STRING'') None))
     = Inr (dq @ ''x'' @ dq) \<and>
   parseValue (JStr ''2020-01-01'') (Some (FieldSchema (Some ''t'') (Some ''TIMESTAMP'') None))
     = Inr (''timestamp('' @ dq @ ''2020-01-01'' @ dq @ '')'') \<and>
   parseValue (JObj [(''k'', JBool True)]) (Some (FieldSchema (Some ''j'') (Some ''JSON'') None))
     = Inr (''JSON '' @ sq @ ''{'' @ dq @ ''k'' @ dq @ '':true}'' @ sq) \<and>
   parseValue (JStr ''x'') (Some (FieldSchema (Some ''b'') (Some ''BYTES'') None))
     = Inr (''CAST('' @ dq @ ''x'' @ dq @ '' as BYTES)'') \<and>
   parseValue (JArr [JObj [(''toString'', JNull)]])
       (Some (FieldSchema (Some ''d'') (Some ''DATE'') None))
     = Inl TypeError \<and>
   parseValue (JNum ''1'') (Some (FieldSchema (Some ''i'') (Some ''INTERVAL'') None))
     = Inl (Error ''Unknown type: INTERVAL'')"
  using parseValue_scalar_forms [of "FieldSchema (Some ''n'') (Some ''INTEGER'') None"
      "JNum ''42''" "''42''"]
    parseValue_scalar_forms [of "FieldSchema (Some ''f'') (Some ''FLOAT'') None"
      "JNum ''1e+21''" "''1e+21''"]
    parseValue_scalar_forms [of "FieldSchema (Some ''s'') (Some ''STRING'') None"
      "JStr ''x''" "''x''"]
    parseValue_scalar_forms [of "FieldSchema (Some ''t'') (Some ''TIMESTAMP'') None"
      "JStr ''2020-01-01''" "''2020-01-01''"]
    parseValue_scalar_forms [of "FieldSchema (Some ''j'') (Some ''JSON'') None"
      "JObj [(''k'', JBool True)]"]
    parseValue_scalar_forms [of "FieldSchema (Some ''b'') (Some ''BYTES'') None"
      "JStr ''x''" "''x''"]
    parseValue_scalar_forms [of "FieldSchema (Some ''d'') (Some ''DATE'') None"
      "JArr [JObj [(''toString'', JNull)]]" _ TypeError]
    parseValue_scalar_forms [of "FieldSchema (Some ''i'') (Some ''INTERVAL'') None"
      "JNum ''1''"]
  by (simp add: interpolate_def quote_def escape_char_def dq_def has_own_def)

text \<open>
  As the claim is worded the \<open>BYTES\<close> literal has the keyword in upper case, and every
  value is rendered. The code writes the keyword in lower case, and it throws for an
  object that has an own property named \<open>toString\<close>, here under STRING.
\<close>

theorem parseValue_scalar_counterexample:
  "parseValue (JStr ''x'') (Some (FieldSchema (Some ''b'') (Some ''BYTES'') None))
     = Inr (''CAST('' @ dq @ ''x'' @ dq @ '' as BYTES)'') \<and>
   parseValue (JStr ''x'') (Some (FieldSchema (Some ''b'') (Some ''BYTES'') None))
     \<noteq> Inr (''CAST('' @ dq @ ''x'' @ dq @ '' AS BYTES)'') \<and>
   parseValue (JObj [(''toString'', JStr ''x'')])
       (Some (FieldSchema (Some ''s'') (Some ''STRING'') None))
     = Inl TypeError"
  by (simp add: parseValue.simps template_def dq_def has_own_def)

subsection \<open>Records\<close>

text \<open>
  Claim C2, with the text the code writes. For a field schema of type RECORD that lists its
  sub-fields \<open>fs\<close> and an object value with the properties \<open>kvs\<close>: when the value of every
  property \<open>k\<close> renders to \<open>r\<close> under the sub-field schema named \<open>k\<close>, the record
  renders as \<open>STRUCT(\<close>, these renderings in the order of the object's own keys separated by
  commas, \<open>)\<close>. The components carry no \<open>field=\<close> prefix.
\<close>

theorem parseValue_record:
  assumes "type s = Some ''RECORD''" and "fields' s = Some fs"
    and "list_all2 (\<lambda>(k, v') r. parseValue v' (find (\<lambda>f. name f = Some k) fs) = Inr r) kvs rs"
  shows "parseValue (JObj kvs) (Some s) = Inr (''STRUCT('' @ join '','' rs @ '')'')"
proof -
  have "map_throw (\<lambda>(k, v'). case fields' s of None \<Rightarrow> Inl TypeError
          | Some fs \<Rightarrow> parseValue v' (find (\<lambda>f. name f = Some k) fs)) kvs = Inr rs"
    using assms(2,3) by (intro map_throw_all2) (simp add: case_prod_unfold)
  with assms(1) show ?thesis by (simp add: parseValue_struct)
qed

theorem parseValue_record_witness:
  "parseValue (JObj [(''a'', JNum ''1''), (''b'', JObj [(''c'', JStr ''x'')])])
     (Some (FieldSchema (Some ''r'') (Some ''RECORD'')
        (Some [FieldSchema (Some ''b'') (Some ''RECORD'')
                 (Some [FieldSchema (Some ''c'') (Some ''STRING'') None]),
               FieldSchema (Some ''a'') (Some ''INTEGER'') None])))
     = Inr (''STRUCT(1,STRUCT('' @ dq @ ''x'' @ dq @ ''))'')"
  using parseValue_record [of
      "FieldSchema (Some ''r'') (Some ''RECORD'')
        (Some [FieldSchema (Some ''b'') (Some ''RECORD'')
                 (Some [FieldSchema (Some ''c'') (Some ''STRING'') None]),
               FieldSchema (Some ''a'') (Some ''INTEGER'') None])"
      "[FieldSchema (Some ''b'') (Some ''RECORD'')
                 (Some [FieldSchema (Some ''c'') (Some ''STRING'') None]),
               FieldSchema (Some ''a'') (Some ''INTEGER'') None]"
      "[(''a'', JNum ''1''), (''b'', JObj [(''c'', JStr ''x'')])]"
      "[''1'', ''STRUCT('' @ dq @ ''x'' @ dq @ '')'']"]
  by (simp add: parseValue.simps template_def dq_def)

text \<open>
  As the claim is worded every component is written \<open>field=value\<close>; the code writes the
  values alone.
\<close>

theorem parseValue_record_counterexample:
  "parseValue (JObj [(''a'', JNum ''1''), (''b'', JStr ''x'')])
     (Some (FieldSchema (Some ''r'') (Some ''RECORD'')
        (Some [FieldSchema (Some ''b'') (Some ''STRING'') None,
               FieldSchema (Some ''a'') (Some ''INTEGER'') None])))
     = Inr (''STRUCT(1,'' @ dq @ ''x'' @ dq @ '')'') \<and>
   parseValue (JObj [(''a'', JNum ''1''), (''b'', JStr ''x'')])
     (Some (FieldSchema (Some ''r'') (Some ''RECORD'')
        (Some [FieldSchema (Some ''b'') (Some ''STRING'') None,
               FieldSchema (Some ''a'') (Some ''INTEGER'') None])))
     \<noteq> Inr (''STRUCT(a=1,b='' @ dq @ ''x'' @ dq @ '')'')"
  by (simp add: parseValue.simps template_def dq_def)

section \<open>Guards of the driver methods\<close>

lemma client_emit [simp]: "client (emit ev d) = client d"
  by (simp add: emit_def)

lemma trace_emit [simp]: "trace (emit ev d) = trace d @ [ev]"
  by (simp add: emit_def)

lemma calls_append [simp]: "calls (xs @ ys) = calls xs @ calls ys"
  by (simp add: calls_def)

lemma requests_append [simp]: "requests (xs @ ys) = requests xs @ requests ys"
  by (simp add: requests_def)

lemma logged_append [simp]: "logged (xs @ ys) = logged xs @ logged ys"
  by (simp add: logged_def)

lemma calls_simps [simp]:
  "calls [] = []" "calls (Called n # tr) = n # calls tr"
  "calls (Request r # tr) = calls tr" "calls (ConsoleLog l # tr) = calls tr"
  "calls (ErrorLogged e # tr) = calls tr"
  by (simp_all add: calls_def)

lemma logged_simps [simp]:
  "logged [] = []" "logged (Called n # tr) = logged tr"
  "logged (Request r # tr) = logged tr" "logged (ConsoleLog l # tr) = logged tr"
  "logged (ErrorLogged e # tr) = e # logged tr"
  by (simp_all add: logged_def)

lemma requests_simps [simp]:
  "requests [] = []" "requests (Called n # tr) = requests tr"
  "requests (Request r # tr) = r # requests tr" "requests (ConsoleLog l # tr) = requests tr"
  "requests (ErrorLogged e # tr) = requests tr"
  by (simp_all add: requests_def)

lemma requests_map_Request [simp]: "requests (map (\<lambda>x. Request (g x)) xs) = map g xs"
  by (induction xs) auto

lemma get_prop_Inl: "get_prop v p = Inl e \<longleftrightarrow> nullish v \<and> e = TypeError"
  by (cases v) (auto simp: nullish_def)

subsection \<open>Actions on a driver that is not connected\<close>









subsection \<open>The \<open>WHERE\<close> clause\<close>

lemma digit_cases:
  "d < 10 \<Longrightarrow> digit d \<in> set ''0123456789'' \<and> (digit d = CHR ''0'' \<longleftrightarrow> d = 0)"
proof -
  assume "d < 10"
  then have "d \<in> {0, 1, 2, 3, 4, 5, 6, 7, 8, 9}" by auto
  then show ?thesis by (auto simp: digit_def)
qed

lemma show_nat_nonempty: "show_nat n \<noteq> []"
  by (subst show_nat.simps) simp

lemma show_nat_length: "length (show_nat n) = 1 \<longleftrightarrow> n < 10"
  using show_nat_nonempty [of "n div 10"] by (subst show_nat.simps) simp

lemma show_nat_digits: "set (show_nat n) \<subseteq> set ''0123456789''"
proof (induction n rule: show_nat.induct)
  case (1 n)
  have "n mod 10 < 10" by simp
  with 1 digit_cases [of n] digit_cases [of "n mod 10"] show ?case
    by (subst show_nat.simps) auto
qed

lemma show_nat_eq_0 [simp]: "show_nat n = ''0'' \<longleftrightarrow> n = 0"
proof (cases "n < 10")
  case True
  then show ?thesis using digit_cases [of n] by (subst show_nat.simps) simp
next
  case False
  then have "length (show_nat n) \<noteq> 1" using show_nat_length [of n] by blast
  with False show ?thesis by auto
qed

lemma show_nat_not_NaN [simp]: "show_nat n \<noteq> ''NaN''"
  using show_nat_digits [of n] by auto

lemma truthy_length: "truthy (JNum (show_nat n)) \<longleftrightarrow> n \<noteq> 0"
  by simp

lemma no_filters_JStr [simp]: "no_filters (JStr s) = Inr (s = [])"
  by (auto simp: no_filters_def)

lemma no_filters_JArr [simp]: "no_filters (JArr xs) = Inr (xs = [])"
  by (simp add: no_filters_def)

lemma no_filters_empty:
  "f \<in> {JUndefined, JNull, JStr [], JArr []} \<Longrightarrow> no_filters f = Inr True"
  by (auto simp: no_filters_def)

text \<open>
  Claim C6. On a connected driver, \<open>updateData\<close> and \<open>deleteData\<close> called with filters
  that are \<open>undefined\<close>, \<open>null\<close>, the empty string or the empty array fail with the error
  that names the missing \<open>WHERE\<close> clause, and the driver is left as it was but for the record
  of the call: neither the schema was fetched nor a query sent.
\<close>

theorem filters_required:
  assumes "client d \<noteq> None" and "f \<in> {JUndefined, JNull, JStr [], JArr []}"
  shows "(filters p2 = f \<longrightarrow> updateData w p2 d =
           (Inl (Error ''BigQuery UPDATE must have a WHERE clause''),
            emit (Called ''updateData'') d)) \<and>
         (filters p3 = f \<longrightarrow> deleteData w p3 d =
           (Inl (Error ''BigQuery DELETE must have a WHERE clause''),
            emit (Called ''deleteData'') d))"
proof -
  from assms(1) obtain c where c: "client d = Some c" by auto
  note nf = no_filters_empty [OF assms(2)]
  show ?thesis
  proof (intro conjI impI)
    assume "filters p2 = f"
    with c nf show "updateData w p2 d =
        (Inl (Error ''BigQuery UPDATE must have a WHERE clause''), emit (Called ''updateData'') d)"
      by (simp add: updateData_def Let_def)
  next
    assume "filters p3 = f"
    with c nf show "deleteData w p3 d =
        (Inl (Error ''BigQuery DELETE must have a WHERE clause''), emit (Called ''deleteData'') d)"
      by (simp add: deleteData_def Let_def)
  qed
qed

theorem filters_required_witness:
  "client connected_driver \<noteq> None \<and>
   updateData sample_bigquery
       \<lparr>dataset = ''ds'', table = ''people'', filters = JStr [], set' = JStr ''age=2''\<rparr>
       connected_driver =
     (Inl (Error ''BigQuery UPDATE must have a WHERE clause''),
      emit (Called ''updateData'') connected_driver) \<and>
   deleteData sample_bigquery \<lparr>dataset = ''ds'', table = ''people'', filters = JStr []\<rparr>
       connected_driver =
     (Inl (Error ''BigQuery DELETE must have a WHERE clause''),
      emit (Called ''deleteData'') connected_driver) \<and>
   requests (trace (emit (Called ''deleteData'') connected_driver)) = []"
  using filters_required [of connected_driver "JStr []"
      "\<lparr>dataset = ''ds'', table = ''people'', filters = JStr [], set' = JStr ''age=2''\<rparr>"
      sample_bigquery
      "\<lparr>dataset = ''ds'', table = ''people'', filters = JStr []\<rparr>"]
  by (simp add: connected_driver_def sample_driver_def BigQueryDriver_new_def requests_def)

subsection \<open>Columns that the table does not have\<close>

lemma map_throw_first_failure:
  "\<forall>x \<in> set pre. \<exists>r. f x = Inr r \<Longrightarrow> f x = Inl e \<Longrightarrow>
   map_throw f (pre @ x # post) = Inl e"
  by (induction pre) (auto split: sum.splits)

lemma first_failure_exists:
  "x \<in> set xs \<Longrightarrow> f x = Inl e' \<Longrightarrow>
   \<exists>pre y post e. xs = pre @ y # post \<and> (\<forall>z \<in> set pre. \<exists>r. f z = Inr r) \<and> f y = Inl e"
proof (induction xs)
  case Nil
  then show ?case by simp
next
  case (Cons a xs)
  show ?case
  proof (cases "f a")
    case (Inl e)
    then have "a # xs = [] @ a # xs \<and> (\<forall>z \<in> set []. \<exists>r. f z = Inr r) \<and> f a = Inl e"
      by simp
    then show ?thesis by blast
  next
    case (Inr r)
    with Cons.prems have "x \<in> set xs" by auto
    from Cons.IH [OF this Cons.prems(2)] obtain pre y post e
      where "xs = pre @ y # post" "\<forall>z \<in> set pre. \<exists>r. f z = Inr r" "f y = Inl e" by blast
    with Inr have "a # xs = (a # pre) @ y # post \<and>
        (\<forall>z \<in> set (a # pre). \<exists>r. f z = Inr r) \<and> f y = Inl e"
      by simp
    then show ?thesis by blast
  qed
qed

lemma extractChangeset_object:
  "extractChangeset (JObj kvs) schema =
     (case map_throw (changeset_entry schema) kvs of
        Inl e \<Rightarrow> Inl e
      | Inr changeset \<Rightarrow> Inr (join '','' changeset))"
  by (simp add: extractChangeset_def)

lemma updateData_changeset_error:
  assumes "client d = Some c" and "no_filters (filters p) = Inr False"
    and "table_getMetadata w (dataset p) (table p) = Inr schema"
    and "extractChangeset (set' p) schema = Inl e"
  shows "updateData w p d =
     (Inl e, emit (Request (TableGetMetadata (dataset p) (table p)))
               (emit (Called ''updateData'') d))"
  using assms by (simp add: updateData_def Let_def)

text \<open>What the callback of \<open>extractChangeset\<close> does with one entry, by cases.\<close>

lemma changeset_entry_renders:
  assumes "table_fields sch = Some fs"
  shows "(\<exists>r. changeset_entry (Some sch) (a, b) = Inr r) \<longleftrightarrow>
         (\<exists>r. parseValue b (find (\<lambda>field. name field = Some a) fs) = Inr r)"
  using assms
  by (cases "find (\<lambda>field. name field = Some a) fs")
    (auto simp: changeset_entry_def parseValue.simps split: sum.splits)

lemma changeset_entry_fails:
  assumes "table_fields sch = Some fs"
  shows "changeset_entry (Some sch) (a, b) = Inl e \<longleftrightarrow>
         (find (\<lambda>field. name field = Some a) fs = None \<and> e = Error ''Schema-altering update'') \<or>
         (\<exists>f. find (\<lambda>field. name field = Some a) fs = Some f \<and> parseValue b (Some f) = Inl e)"
  using assms
  by (cases "find (\<lambda>field. name field = Some a) fs")
    (auto simp: changeset_entry_def split: sum.splits)

text \<open>
  Claim C7, as the code has it. \<open>updateData\<close> on a connected driver, with filters that pass
  the guard, a schema fetched with the fields \<open>fs\<close> and a changeset object that has a key
  \<open>k\<close> without a field in \<open>fs\<close>. The entries of the changeset split at the first one
  that fails, \<open>(k', v')\<close>: all entries before it render under their own fields, and it
  either has no field, or has one under which its value does not render. The call throws
  the error of that entry, \<open>Schema-altering update\<close> in the first case and the rendering
  error in the second, and the only request it sent is the one for the metadata, so no
  \<open>UPDATE\<close> query was issued. For every split \<open>pre\<close>, \<open>(k', v')\<close>, \<open>post\<close> of the
  entries whose first part renders, the error is that of \<open>(k', v')\<close> if it fails; so it
  is \<open>Schema-altering update\<close> when all entries before an absent key render.
\<close>

theorem updateData_unknown_column:
  assumes "client d \<noteq> None" and "no_filters (filters p) = Inr False"
    and "table_getMetadata w (dataset p) (table p) = Inr (Some sch)"
    and "table_fields sch = Some fs"
    and "set' p = JObj kvs" and "(k, v) \<in> set kvs"
    and "find (\<lambda>field. name field = Some k) fs = None"
  shows "(\<exists>first k' v' rest e.
            kvs = first @ (k', v') # rest \<and>
            (\<forall>(a, b) \<in> set first.
                \<exists>r. parseValue b (find (\<lambda>field. name field = Some a) fs) = Inr r) \<and>
            ((find (\<lambda>field. name field = Some k') fs = None \<and>
              e = Error ''Schema-altering update'') \<or>
             (\<exists>f. find (\<lambda>field. name field = Some k') fs = Some f \<and>
                  parseValue v' (Some f) = Inl e)) \<and>
            fst (updateData w p d) = Inl e) \<and>
         snd (updateData w p d) =
           emit (Request (TableGetMetadata (dataset p) (table p)))
             (emit (Called ''updateData'') d) \<and>
         (kvs = pre @ (k'', v'') # post \<and>
          (\<forall>(a, b) \<in> set pre.
              \<exists>r. parseValue b (find (\<lambda>field. name field = Some a) fs) = Inr r)
          \<longrightarrow>
            (find (\<lambda>field. name field = Some k'') fs = None
               \<longrightarrow> fst (updateData w p d) = Inl (Error ''Schema-altering update'')) \<and>
            (\<forall>f e. find (\<lambda>field. name field = Some k'') fs = Some f \<and>
                   parseValue v'' (Some f) = Inl e
               \<longrightarrow> fst (updateData w p d) = Inl e))"
proof -
  from assms(1) obtain c where c: "client d = Some c" by auto
  let ?entry = "changeset_entry (Some sch)"
  note renders = changeset_entry_renders [OF assms(4)]
  note fails = changeset_entry_fails [OF assms(4)]
  have result: "updateData w p d =
      (Inl e, emit (Request (TableGetMetadata (dataset p) (table p)))
                (emit (Called ''updateData'') d))"
    if split: "kvs = first @ (a, b) # rest"
      and ok: "\<forall>(a, b) \<in> set first.
                 \<exists>r. parseValue b (find (\<lambda>field. name field = Some a) fs) = Inr r"
      and bad: "?entry (a, b) = Inl e"
    for first a b rest e
  proof -
    have "\<exists>r. ?entry x = Inr r" if "x \<in> set first" for x
    proof -
      obtain a b where x: "x = (a, b)" by (cases x)
      with ok that have "\<exists>r. parseValue b (find (\<lambda>field. name field = Some a) fs) = Inr r"
        by auto
      then show ?thesis using renders [of a b] x by simp
    qed
    then have "\<forall>x \<in> set first. \<exists>r. ?entry x = Inr r" by blast
    from map_throw_first_failure [OF this bad, of rest] split
    have "map_throw ?entry kvs = Inl e" by simp
    then have "extractChangeset (set' p) (Some sch) = Inl e"
      using assms(5) by (simp add: extractChangeset_object)
    from updateData_changeset_error [OF c assms(2,3) this] show ?thesis .
  qed
  have absent: "?entry (k, v) = Inl (Error ''Schema-altering update'')"
    using assms(7) fails by simp
  from first_failure_exists [of "(k, v)" kvs ?entry, OF assms(6) absent]
  obtain first y rest e where y: "kvs = first @ y # rest"
      "\<forall>z \<in> set first. \<exists>r. ?entry z = Inr r" "?entry y = Inl e" by blast
  obtain k' v' where kv: "y = (k', v')" by (cases y)
  have "\<exists>r. parseValue b (find (\<lambda>field. name field = Some a) fs) = Inr r"
    if "(a, b) \<in> set first" for a b
    using y(2) that renders [of a b] by blast
  then have ok: "\<forall>(a, b) \<in> set first.
              \<exists>r. parseValue b (find (\<lambda>field. name field = Some a) fs) = Inr r"
    by auto
  have which: "(find (\<lambda>field. name field = Some k') fs = None \<and>
              e = Error ''Schema-altering update'') \<or>
             (\<exists>f. find (\<lambda>field. name field = Some k') fs = Some f \<and>
                  parseValue v' (Some f) = Inl e)"
    using y(3) fails by (simp add: kv)
  have run: "updateData w p d =
      (Inl e, emit (Request (TableGetMetadata (dataset p) (table p)))
                (emit (Called ''updateData'') d))"
    using result [of first k' v' rest e] y(1,3) ok by (simp add: kv)
  have part1: "\<exists>first k' v' rest e.
            kvs = first @ (k', v') # rest \<and>
            (\<forall>(a, b) \<in> set first.
                \<exists>r. parseValue b (find (\<lambda>field. name field = Some a) fs) = Inr r) \<and>
            ((find (\<lambda>field. name field = Some k') fs = None \<and>
              e = Error ''Schema-altering update'') \<or>
             (\<exists>f. find (\<lambda>field. name field = Some k') fs = Some f \<and>
                  parseValue v' (Some f) = Inl e)) \<and>
            fst (updateData w p d) = Inl e"
    using y(1) ok which run unfolding kv by (intro exI [of _ first] exI [of _ k']
        exI [of _ v'] exI [of _ rest] exI [of _ e]) simp
  have part3: "(find (\<lambda>field. name field = Some k'') fs = None
               \<longrightarrow> fst (updateData w p d) = Inl (Error ''Schema-altering update'')) \<and>
            (\<forall>f e. find (\<lambda>field. name field = Some k'') fs = Some f \<and>
                   parseValue v'' (Some f) = Inl e
               \<longrightarrow> fst (updateData w p d) = Inl e)"
    if "kvs = pre @ (k'', v'') # post"
      and "\<forall>(a, b) \<in> set pre.
              \<exists>r. parseValue b (find (\<lambda>field. name field = Some a) fs) = Inr r"
  proof (intro conjI impI allI)
    assume "find (\<lambda>field. name field = Some k'') fs = None"
    then have "?entry (k'', v'') = Inl (Error ''Schema-altering update'')"
      using fails by simp
    from result [OF that this]
    show "fst (updateData w p d) = Inl (Error ''Schema-altering update'')" by simp
  next
    fix f e
    assume "find (\<lambda>field. name field = Some k'') fs = Some f \<and> parseValue v'' (Some f) = Inl e"
    then have "?entry (k'', v'') = Inl e"
      using fails by simp
    from result [OF that this] show "fst (updateData w p d) = Inl e" by simp
  qed
  from run have part2: "snd (updateData w p d) =
      emit (Request (TableGetMetadata (dataset p) (table p))) (emit (Called ''updateData'') d)"
    by simp
  from part3 have part3': "kvs = pre @ (k'', v'') # post \<and>
          (\<forall>(a, b) \<in> set pre.
              \<exists>r. parseValue b (find (\<lambda>field. name field = Some a) fs) = Inr r)
          \<longrightarrow>
            (find (\<lambda>field. name field = Some k'') fs = None
               \<longrightarrow> fst (updateData w p d) = Inl (Error ''Schema-altering update'')) \<and>
            (\<forall>f e. find (\<lambda>field. name field = Some k'') fs = Some f \<and>
                   parseValue v'' (Some f) = Inl e
               \<longrightarrow> fst (updateData w p d) = Inl e)"
    by (intro impI) (elim conjE)
  show ?thesis by (rule conjI [OF part1 conjI [OF part2 part3']])
qed

theorem updateData_unknown_column_witness:
  "fst (updateData sample_bigquery
          \<lparr>dataset = ''ds'', table = ''people'', filters = JStr ''age > 1'',
           set' = JObj [(''age'', JNum ''7''), (''nickname'', JStr ''Al'')]\<rparr>
          connected_driver) = Inl (Error ''Schema-altering update'') \<and>
   requests (trace (snd (updateData sample_bigquery
          \<lparr>dataset = ''ds'', table = ''people'', filters = JStr ''age > 1'',
           set' = JObj [(''age'', JNum ''7''), (''nickname'', JStr ''Al'')]\<rparr>
          connected_driver))) = [TableGetMetadata ''ds'' ''people''] \<and>
   fst (updateData sample_bigquery
          \<lparr>dataset = ''ds'', table = ''people'', filters = JStr ''age > 1'',
           set' = JObj [(''address'', JNull), (''nickname'', JStr ''Al'')]\<rparr>
          connected_driver) = Inl TypeError"
  using updateData_unknown_column [of connected_driver
      "\<lparr>dataset = ''ds'', table = ''people'', filters = JStr ''age > 1'',
           set' = JObj [(''age'', JNum ''7''), (''nickname'', JStr ''Al'')]\<rparr>"
      sample_bigquery people_schema people_fields
      "[(''age'', JNum ''7''), (''nickname'', JStr ''Al'')]" "''nickname''" "JStr ''Al''"
      "[(''age'', JNum ''7'')]" "''nickname''" "JStr ''Al''" "[]"]
    updateData_unknown_column [of connected_driver
      "\<lparr>dataset = ''ds'', table = ''people'', filters = JStr ''age > 1'',
           set' = JObj [(''address'', JNull), (''nickname'', JStr ''Al'')]\<rparr>"
      sample_bigquery people_schema people_fields
      "[(''address'', JNull), (''nickname'', JStr ''Al'')]" "''nickname''" "JStr ''Al''"
      "[]" "''address''" "JNull" "[(''nickname'', JStr ''Al'')]"]
  by (simp add: connected_driver_def sample_driver_def BigQueryDriver_new_def
      sample_bigquery_def people_schema_def people_fields_def parseValue.simps template_def)

text \<open>
  As the claim is worded the error is always the schema-altering one. Here the changeset
  sets the record column \<open>address\<close> to \<open>null\<close> before it names the column \<open>nickname\<close>,
  which the table does not have: the call throws the \<open>TypeError\<close> of the first entry.
\<close>

theorem updateData_unknown_column_counterexample:
  "client connected_driver \<noteq> None \<and>
   table_getMetadata sample_bigquery ''ds'' ''people'' = Inr (Some people_schema) \<and>
   table_fields people_schema = Some people_fields \<and>
   find (\<lambda>field. name field = Some ''nickname'') people_fields = None \<and>
   fst (updateData sample_bigquery
          \<lparr>dataset = ''ds'', table = ''people'', filters = JStr ''age > 1'',
           set' = JObj [(''address'', JNull), (''nickname'', JStr ''Al'')]\<rparr>
          connected_driver) = Inl TypeError"
  by (simp add: updateData_def extractChangeset_def changeset_entry_def
      connected_driver_def sample_driver_def BigQueryDriver_new_def sample_bigquery_def
      people_schema_def people_fields_def parseValue.simps)

subsection \<open>Insertion that the remote refuses\<close>

text \<open>
  Claim C8. On a connected driver: when the existence check of the table fails,
  \<open>insertData\<close> returns \<open>null\<close>, having sent that one request and logged that the table was
  not found; when the table exists and the insertion is rejected, it returns \<open>null\<close>,
  having logged \<open>Schema-altering action\<close>. In neither case is an error thrown.
\<close>

theorem insertData_null:
  assumes "client d \<noteq> None"
  shows "(table_get w (dataset p) (table p) = Inl e \<longrightarrow>
            fst (insertData w p d) = Inr JNull \<and>
            trace (snd (insertData w p d)) = trace d @
              [Called ''insertData'', Request (TableGet (dataset p) (table p)),
               ConsoleLog (''table '' @ bt @ GCP_PROJECT_ID d @ ''.'' @ dataset p @ ''.'' @ table p
                           @ bt @ '' not found'')]) \<and>
         (table_get w (dataset p) (table p) = Inr y \<and>
          table_insert w (dataset p) (table p) (data p) (options p) = Inl e \<longrightarrow>
            fst (insertData w p d) = Inr JNull \<and>
            trace (snd (insertData w p d)) = trace d @
              [Called ''insertData'', Request (TableGet (dataset p) (table p)),
               Request (TableInsert (dataset p) (table p) (data p) (options p)),
               ConsoleLog ''Schema-altering action''])"
proof -
  from assms obtain c where c: "client d = Some c" by auto
  show ?thesis
    by (simp add: insertData_def Let_def table_path_def c)
qed

theorem insertData_null_witness:
  "client connected_driver \<noteq> None \<and>
   fst (insertData sample_bigquery
          \<lparr>dataset = ''ds'', table = ''pets'', data = JArr [JObj []], options = JUndefined\<rparr>
          connected_driver) = Inr JNull \<and>
   fst (insertData sample_bigquery
          \<lparr>dataset = ''ds'', table = ''people'', data = JArr [], options = JUndefined\<rparr>
          connected_driver) = Inr JNull"
  using insertData_null [of connected_driver sample_bigquery
      "\<lparr>dataset = ''ds'', table = ''pets'', data = JArr [JObj []], options = JUndefined\<rparr>"
      "VendorError (JStr ''Not found'')" "JArr []"]
    insertData_null [of connected_driver sample_bigquery
      "\<lparr>dataset = ''ds'', table = ''people'', data = JArr [], options = JUndefined\<rparr>"
      "VendorError (JStr ''No rows'')" "JArr []"]
  by (simp add: connected_driver_def sample_driver_def BigQueryDriver_new_def sample_bigquery_def)

subsection \<open>\<open>testConnection\<close>\<close>

text \<open>
  Claim C9 at an input where the code departs from it: the driver is connected and the
  remote rejects the sample query; \<open>testConnection\<close> of the BigQuery driver throws the
  rejection instead of returning \<open>{ success: false, ... }\<close>.
\<close>

theorem testConnection_throws:
  "client connected_driver \<noteq> None \<and>
   client_query sample_bigquery sample_query = Inl (VendorError (JStr ''Access Denied'')) \<and>
   fst (BigQueryDriver_testConnection sample_bigquery connected_driver)
     = Inl (VendorError (JStr ''Access Denied''))"
  by (simp add: BigQueryDriver_testConnection_def connected_driver_def sample_bigquery_def)

text \<open>
  Otherwise the two methods do as the claim says: the BigQuery driver returns a structured
  result whenever the sample query resolves, and the Xero driver always returns one.
\<close>

lemma BigQueryDriver_testConnection_resolved:
  "client d \<noteq> None \<Longrightarrow> client_query w sample_query = Inr res \<Longrightarrow>
   \<exists>ok msg. fst (BigQueryDriver_testConnection w d) = Inr (test_result ok msg)"
  by (auto simp: BigQueryDriver_testConnection_def Let_def)

lemma XeroDriver_testConnection_result:
  "\<exists>ok msg. fst (XeroDriver_testConnection w d) = Inr (test_result ok msg)"
  by (auto simp: XeroDriver_testConnection_def Let_def split: option.splits sum.splits)

subsection \<open>\<open>connect\<close> of the Xero driver\<close>

lemma client_options_TypeError:
  "config = JUndefined \<or> get_prop config ''oauth2'' = Inr JUndefined \<Longrightarrow>
   client_options config d = Inl TypeError"
  by (auto simp: client_options_def get_prop_Inl split: sum.splits)

text \<open>
  Claim C10, as the code has it. \<open>connect\<close> called without a configuration, or with one
  that has no \<open>oauth2\<close> property, ends with a \<open>TypeError\<close>; the driver is left as it was
  but for the record of the call, whatever client id and secret it was constructed with:
  no client was built and no request sent. \<open>connect\<close> is \<open>async\<close>: the call returns a
  promise that is rejected with the \<open>TypeError\<close>, it does not throw.
\<close>

theorem connect_needs_oauth2:
  assumes "config = JUndefined \<or> get_prop config ''oauth2'' = Inr JUndefined"
  shows "XeroDriver_connect w config d = (Inl TypeError, emit (Called ''connect'') d) \<and>
         async (XeroDriver_connect w config d) =
           (Returns_promise (Inl TypeError), emit (Called ''connect'') d) \<and>
         client (snd (XeroDriver_connect w config d)) = client d \<and>
         requests (trace (snd (XeroDriver_connect w config d))) = requests (trace d)"
  using client_options_TypeError [OF assms]
  by (simp add: XeroDriver_connect_def async_def requests_def)

theorem connect_needs_oauth2_witness:
  "get_prop (JObj [(''XERO_CLIENT_ID'', JStr ''id'')]) ''oauth2'' = Inr JUndefined \<and>
   async (XeroDriver_connect sample_xero (JObj [(''XERO_CLIENT_ID'', JStr ''id'')])
            sample_xero_driver) =
     (Returns_promise (Inl TypeError), emit (Called ''connect'') sample_xero_driver) \<and>
   async (XeroDriver_connect sample_xero JUndefined sample_xero_driver) =
     (Returns_promise (Inl TypeError), emit (Called ''connect'') sample_xero_driver)"
  using connect_needs_oauth2 [of "JObj [(''XERO_CLIENT_ID'', JStr ''id'')]" sample_xero
      sample_xero_driver]
    connect_needs_oauth2 [of JUndefined sample_xero sample_xero_driver]
  by (simp add: async_def)

text \<open>
  As the claim is worded \<open>connect\<close> throws synchronously. The call without a
  configuration completes by returning a promise, rejected with the \<open>TypeError\<close>.
\<close>

theorem connect_needs_oauth2_counterexample:
  "fst (async (XeroDriver_connect sample_xero JUndefined sample_xero_driver)) =
     Returns_promise (Inl TypeError) \<and>
   fst (async (XeroDriver_connect sample_xero JUndefined sample_xero_driver)) \<noteq>
     Throws TypeError"
  by (simp add: async_def XeroDriver_connect_def client_options_def)

section \<open>The lifecycle proxy\<close>

subsection \<open>What each driver method leaves behind\<close>

lemma connect_effect:
  "calls (trace (snd (BigQueryDriver_connect w cfg d))) = calls (trace d) @ [''connect''] \<and>
   logged (trace (snd (BigQueryDriver_connect w cfg d))) = logged (trace d) \<and>
   (isl (fst (BigQueryDriver_connect w cfg d)) \<or> client (snd (BigQueryDriver_connect w cfg d)) \<noteq> None)"
  by (simp add: BigQueryDriver_connect_def Let_def split: sum.splits)

lemma insertData_effect:
  "calls (trace (snd (insertData w p d))) = calls (trace d) @ [''insertData''] \<and>
   logged (trace (snd (insertData w p d))) = logged (trace d) \<and>
   client (snd (insertData w p d)) = client d"
  by (simp add: insertData_def Let_def split: sum.splits)

lemma updateData_effect:
  "calls (trace (snd (updateData w p d))) = calls (trace d) @ [''updateData''] \<and>
   logged (trace (snd (updateData w p d))) = logged (trace d) \<and>
   client (snd (updateData w p d)) = client d"
  by (simp add: updateData_def Let_def split: sum.splits bool.splits)

lemma deleteData_effect:
  "calls (trace (snd (deleteData w p d))) = calls (trace d) @ [''deleteData''] \<and>
   logged (trace (snd (deleteData w p d))) = logged (trace d) \<and>
   client (snd (deleteData w p d)) = client d"
  by (simp add: deleteData_def Let_def split: sum.splits bool.splits)

text \<open>
  The three shapes of a run of the wrapper, for a \<open>connect\<close> \<open>k\<close>, an action \<open>a\<close>
  entered under the name \<open>n\<close> and a \<open>disconnect\<close>, written once for both proxies.
\<close>

lemma BigQuery_proxy_runs:
  assumes act: "invoke w c = act"
    and effect: "\<And>d. calls (trace (snd (act d))) = calls (trace d) @ [n] \<and>
                     logged (trace (snd (act d))) = logged (trace d) \<and>
                     client (snd (act d)) = client d"
  shows "(fst (BigQueryDriver_connect w JUndefined d) = Inr u \<and>
          fst (act (snd (BigQueryDriver_connect w JUndefined d))) = Inr r \<longrightarrow>
            BigQuery_getProxyDriver w c d =
              (Returns_promise (Inr r),
               snd (BigQueryDriver_disconnect
                      (snd (act (snd (BigQueryDriver_connect w JUndefined d)))))) \<and>
            calls (trace (snd (BigQuery_getProxyDriver w c d))) =
              calls (trace d) @ [''connect'', n, ''disconnect''] \<and>
            logged (trace (snd (BigQuery_getProxyDriver w c d))) = logged (trace d) \<and>
            client (snd (BigQuery_getProxyDriver w c d)) = None) \<and>
         (fst (BigQueryDriver_connect w JUndefined d) = Inr u \<and>
          fst (act (snd (BigQueryDriver_connect w JUndefined d))) = Inl e \<longrightarrow>
            BigQuery_getProxyDriver w c d =
              (Returns_promise (Inl e),
               emit (ErrorLogged e) (snd (act (snd (BigQueryDriver_connect w JUndefined d))))) \<and>
            calls (trace (snd (BigQuery_getProxyDriver w c d))) =
              calls (trace d) @ [''connect'', n] \<and>
            logged (trace (snd (BigQuery_getProxyDriver w c d))) = logged (trace d) @ [e] \<and>
            client (snd (BigQuery_getProxyDriver w c d)) \<noteq> None) \<and>
         (fst (BigQueryDriver_connect w JUndefined d) = Inl e \<longrightarrow>
            BigQuery_getProxyDriver w c d =
              (Returns_promise (Inl e),
               emit (ErrorLogged e) (snd (BigQueryDriver_connect w JUndefined d))) \<and>
            calls (trace (snd (BigQuery_getProxyDriver w c d))) = calls (trace d) @ [''connect''] \<and>
            logged (trace (snd (BigQuery_getProxyDriver w c d))) = logged (trace d) @ [e])"
proof -
  obtain rk dk where k: "BigQueryDriver_connect w JUndefined d = (rk, dk)"
    by (cases "BigQueryDriver_connect w JUndefined d")
  obtain ra da where a: "act dk = (ra, da)"
    by (cases "act dk")
  from connect_effect [of w JUndefined d] k
  have ck: "calls (trace dk) = calls (trace d) @ [''connect'']"
      "logged (trace dk) = logged (trace d)" "isl rk \<or> client dk \<noteq> None"
    by simp_all
  from effect [of dk] a
  have ca: "calls (trace da) = calls (trace dk) @ [n]" "logged (trace da) = logged (trace dk)"
      "client da = client dk"
    by simp_all
  show ?thesis
    using ck ca
    by (auto simp: BigQuery_getProxyDriver_def async_def log_and_rethrow_def k a act
        BigQueryDriver_disconnect_def)
qed

lemma tenant_loop_effect:
  "calls (trace (snd (tenant_loop f m mp params ids rs d))) = calls (trace d) \<and>
   logged (trace (snd (tenant_loop f m mp params ids rs d))) = logged (trace d) \<and>
   client (snd (tenant_loop f m mp params ids rs d)) = client d"
  by (induction ids arbitrary: rs d) (auto split: sum.splits)

lemma performAction_effect:
  "calls (trace (snd (performAction w a params d))) = calls (trace d) @ [''performAction''] \<and>
   logged (trace (snd (performAction w a params d))) = logged (trace d) \<and>
   client (snd (performAction w a params d)) = client d"
proof -
  have "calls (trace (snd (case tenant_loop f m mp params ids [] d0 of
            (Inl e, d1) \<Rightarrow> (Inl e, d1)
          | (Inr responses, d1) \<Rightarrow> (Inr (JObj responses), d1)))) = calls (trace d0) \<and>
        logged (trace (snd (case tenant_loop f m mp params ids [] d0 of
            (Inl e, d1) \<Rightarrow> (Inl e, d1)
          | (Inr responses, d1) \<Rightarrow> (Inr (JObj responses), d1)))) = logged (trace d0) \<and>
        client (snd (case tenant_loop f m mp params ids [] d0 of
            (Inl e, d1) \<Rightarrow> (Inl e, d1)
          | (Inr responses, d1) \<Rightarrow> (Inr (JObj responses), d1))) = client d0"
    for f m mp ids and d0 :: XeroDriver
    using tenant_loop_effect [of f m mp params ids "[]" d0]
    by (auto split: prod.splits sum.splits)
  then show ?thesis
    by (simp add: performAction_def Let_def split: option.splits sum.splits)
qed

lemma XeroDriver_connect_effect:
  "calls (trace (snd (XeroDriver_connect w cfg d))) = calls (trace d) @ [''connect''] \<and>
   logged (trace (snd (XeroDriver_connect w cfg d))) = logged (trace d) \<and>
   (isl (fst (XeroDriver_connect w cfg d)) \<or> client (snd (XeroDriver_connect w cfg d)) \<noteq> None)"
  by (simp add: XeroDriver_connect_def Let_def split: sum.splits option.splits)

lemma Xero_proxy_runs:
  assumes "is_function_member member"
    and "member \<notin> {''connect'', ''disconnect'', ''testConnection''}"
  shows "(fst (XeroDriver_connect w (if truthy config then config else payload) d) = Inr u \<and>
          fst (performAction w payload params
                 (snd (XeroDriver_connect w (if truthy config then config else payload) d))) = Inr r
          \<longrightarrow>
            Xero_getProxyDriver w config member payload params d =
              (Returns_promise (Inr r),
               snd (XeroDriver_disconnect (snd (performAction w payload params
                 (snd (XeroDriver_connect w (if truthy config then config else payload) d)))))) \<and>
            calls (trace (snd (Xero_getProxyDriver w config member payload params d))) =
              calls (trace d) @ [''connect'', ''performAction'', ''disconnect''] \<and>
            logged (trace (snd (Xero_getProxyDriver w config member payload params d))) =
              logged (trace d) \<and>
            client (snd (Xero_getProxyDriver w config member payload params d)) = None) \<and>
         (fst (XeroDriver_connect w (if truthy config then config else payload) d) = Inr u \<and>
          fst (performAction w payload params
                 (snd (XeroDriver_connect w (if truthy config then config else payload) d))) = Inl e
          \<longrightarrow>
            Xero_getProxyDriver w config member payload params d =
              (Returns_promise (Inl e),
               emit (ErrorLogged e) (snd (performAction w payload params
                 (snd (XeroDriver_connect w (if truthy config then config else payload) d))))) \<and>
            calls (trace (snd (Xero_getProxyDriver w config member payload params d))) =
              calls (trace d) @ [''connect'', ''performAction''] \<and>
            logged (trace (snd (Xero_getProxyDriver w config member payload params d))) =
              logged (trace d) @ [e] \<and>
            client (snd (Xero_getProxyDriver w config member payload params d)) \<noteq> None) \<and>
         (fst (XeroDriver_connect w (if truthy config then config else payload) d) = Inl e \<longrightarrow>
            Xero_getProxyDriver w config member payload params d =
              (Returns_promise (Inl e),
               emit (ErrorLogged e)
                 (snd (XeroDriver_connect w (if truthy config then config else payload) d))) \<and>
            calls (trace (snd (Xero_getProxyDriver w config member payload params d))) =
              calls (trace d) @ [''connect''] \<and>
            logged (trace (snd (Xero_getProxyDriver w config member payload params d))) =
              logged (trace d) @ [e])"
proof -
  let ?cfg = "if truthy config then config else payload"
  obtain rk dk where k: "XeroDriver_connect w ?cfg d = (rk, dk)"
    by (cases "XeroDriver_connect w ?cfg d")
  obtain ra da where a: "performAction w payload params dk = (ra, da)"
    by (cases "performAction w payload params dk")
  from XeroDriver_connect_effect [of w ?cfg d] k
  have ck: "calls (trace dk) = calls (trace d) @ [''connect'']"
      "logged (trace dk) = logged (trace d)" "isl rk \<or> client dk \<noteq> None"
    by simp_all
  from performAction_effect [of w payload params dk] a
  have ca: "calls (trace da) = calls (trace dk) @ [''performAction'']"
      "logged (trace da) = logged (trace dk)" "client da = client dk"
    by simp_all
  from assms have member: "member \<noteq> ''tenantIds''" "member \<noteq> ''client''" "member \<noteq> ''connect''"
      "member \<noteq> ''disconnect''" "member \<noteq> ''testConnection''"
    by (auto simp: is_function_member_def XeroDriver_methods_def Object_prototype_functions_def)
  have proxy: "Xero_getProxyDriver w config member payload params d =
      async (case XeroDriver_connect w ?cfg d of
                (Inl err, d1) \<Rightarrow> log_and_rethrow err d1
              | (Inr _, d1) \<Rightarrow>
                  (case performAction w payload params d1 of
                     (Inl err, d2) \<Rightarrow> log_and_rethrow err d2
                   | (Inr result, d2) \<Rightarrow>
                       (case XeroDriver_disconnect d2 of
                          (Inl err, d3) \<Rightarrow> log_and_rethrow err d3
                        | (Inr _, d3) \<Rightarrow> (Inr result, d3))))"
    unfolding Xero_getProxyDriver_def using assms(1) member by simp
  show ?thesis
    unfolding proxy using ck ca k a
    by (auto simp: async_def log_and_rethrow_def XeroDriver_disconnect_def)
qed

subsection \<open>The proxies on the sample remotes\<close>

lemma sample_traces [simp]:
  "trace sample_driver = []" "trace unparsable_driver = []" "trace sample_xero_driver = []"
  by (simp_all add: sample_driver_def unparsable_driver_def BigQueryDriver_new_def
      sample_xero_driver_def XeroDriver_new_def)

lemma sample_connect:
  "BigQueryDriver_connect sample_bigquery JUndefined sample_driver =
     (Inr JUndefined, connected_driver\<lparr>trace := [Called ''connect'']\<rparr>)"
  by (simp add: BigQueryDriver_connect_def sample_bigquery_def sample_driver_def
      BigQueryDriver_new_def connected_driver_def emit_def)

lemma sample_connect_unparsable:
  "BigQueryDriver_connect sample_bigquery JUndefined unparsable_driver =
     (Inl (Error ''Unexpected end of JSON input''),
      unparsable_driver\<lparr>trace := [Called ''connect'']\<rparr>)"
  by (simp add: BigQueryDriver_connect_def sample_bigquery_def unparsable_driver_def
      BigQueryDriver_new_def emit_def)

lemma sample_delete:
  "deleteData sample_bigquery
     \<lparr>dataset = ''ds'', table = ''people'', filters = JStr ''age > 1''\<rparr>
     (connected_driver\<lparr>trace := [Called ''connect'']\<rparr>) =
   (Inr JUndefined,
    connected_driver\<lparr>trace :=
      [Called ''connect'', Called ''deleteData'',
       Request (TableQuery ''ds'' ''people''
         (''DELETE FROM '' @ bt @ ''proj.ds.people'' @ bt @ nl @
          ''        WHERE age > 1'' @ nl @ ''    ''))]\<rparr>)"
  by (simp add: deleteData_def no_filters_def sample_bigquery_def connected_driver_def
      sample_driver_def BigQueryDriver_new_def emit_def delete_query_def table_path_def
      template_def)

lemma sample_insert:
  "insertData sample_bigquery
     \<lparr>dataset = ''ds'', table = ''people'', data = JArr [JObj [(''name'', JStr ''Al'')]],
      options = JUndefined\<rparr>
     (connected_driver\<lparr>trace := [Called ''connect'']\<rparr>) =
   (Inr (JArr []),
    connected_driver\<lparr>trace :=
      [Called ''connect'', Called ''insertData'', Request (TableGet ''ds'' ''people''),
       Request (TableInsert ''ds'' ''people'' (JArr [JObj [(''name'', JStr ''Al'')]])
                  JUndefined)]\<rparr>)"
  by (simp add: insertData_def sample_bigquery_def connected_driver_def
      sample_driver_def BigQueryDriver_new_def emit_def)

lemma sample_update:
  "updateData sample_bigquery
     \<lparr>dataset = ''ds'', table = ''people'', filters = JStr [], set' = JStr ''age=2''\<rparr>
     (connected_driver\<lparr>trace := [Called ''connect'']\<rparr>) =
   (Inl (Error ''BigQuery UPDATE must have a WHERE clause''),
    connected_driver\<lparr>trace := [Called ''connect'', Called ''updateData'']\<rparr>)"
  by (simp add: updateData_def no_filters_def connected_driver_def
      sample_driver_def BigQueryDriver_new_def emit_def)

lemma truthy_sample_config [simp]: "truthy sample_config"
  by (simp add: sample_config_def)

lemma sample_xero_connect:
  "XeroDriver_connect sample_xero sample_config sample_xero_driver =
     (Inr JUndefined,
      connected_xero_driver
        \<lparr>trace := [Called ''connect'', Request (GetConnections ''Bearer tok'')]\<rparr>)"
  by (simp add: XeroDriver_connect_def client_options_def sample_xero_def sample_config_def
      sample_xero_driver_def XeroDriver_new_def connected_xero_driver_def emit_def
      template_def)

lemma sample_xero_connect_empty:
  "XeroDriver_connect sample_xero (JObj []) sample_xero_driver =
     (Inl TypeError, sample_xero_driver\<lparr>trace := [Called ''connect'']\<rparr>)"
  by (simp add: XeroDriver_connect_def client_options_def emit_def)

lemma reflect_getInvoice: "reflect_params getInvoice = [''xeroTenantId'', ''invoiceID'']"
  by (simp add: reflect_params_def getInvoice_def String_trim_def is_space_def)

lemma call_getInvoice:
  "fn_call getInvoice args =
     (if args = [JStr ''t2'', JStr ''inv'']
      then Inl (VendorError (not_found_response))
      else Inr (JObj [(''body'', JArr args)]))"
  by (simp add: getInvoice_def)

lemma sample_tenants [simp]:
  "array_index ''t1'' = None" "array_index ''t2'' = None" "array_index ''t3'' = None"
  by (simp_all add: array_index_def)

lemma sample_getInvoice:
  "performAction sample_xero (JStr ''accounting.getInvoice'')
     (JObj [(''invoiceID'', JStr ''inv'')]) (connected_xero_driver\<lparr>trace := tr\<rparr>) =
   (Inr (JObj [(''t1'', JArr [JStr ''t1'', JStr ''inv'']),
               (''t2'', not_found_response),
               (''t3'', JArr [JStr ''t3'', JStr ''inv''])]),
    connected_xero_driver\<lparr>trace := tr @
      [Called ''performAction'',
       Request (AccountingCall ''getInvoice'' [JStr ''t1'', JStr ''inv'']),
       Request (AccountingCall ''getInvoice'' [JStr ''t2'', JStr ''inv'']),
       Request (AccountingCall ''getInvoice'' [JStr ''t3'', JStr ''inv''])]\<rparr>)"
  by (simp add: performAction_def toString_method_def Let_def nullish_def nth_opt_def
      interpolate_def reflect_getInvoice call_getInvoice tenant_args_def tenant_entry_def
      assign_def has_own_def
      sample_xero_def sample_xero_driver_def connected_xero_driver_def XeroDriver_new_def
      emit_def)

lemma sample_payroll:
  "performAction sample_xero (JStr ''payroll.getEmployees'') (JObj [])
     (connected_xero_driver\<lparr>trace := tr\<rparr>) =
   (Inl (Error ''API payroll for Xero not found''),
    connected_xero_driver\<lparr>trace := tr @ [Called ''performAction'']\<rparr>)"
  by (simp add: performAction_def toString_method_def Let_def nullish_def nth_opt_def
      interpolate_def emit_def)

lemma client_connected_xero [simp]: "client (connected_xero_driver\<lparr>trace := tr\<rparr>) \<noteq> None"
  by (simp add: connected_xero_driver_def)

lemma client_connected [simp]: "client (connected_driver\<lparr>trace := tr\<rparr>) \<noteq> None"
  by (simp add: connected_driver_def)

subsection \<open>Connect, act, disconnect\<close>

text \<open>
  Claim C3. The call is one of the three domain actions of the BigQuery driver through its
  proxy: \<open>c\<close> is the call with its payload, \<open>act\<close> the method of the driver applied to
  that same payload, \<open>n\<close> its name. Or it is a call through the proxy of the Xero driver
  under a name \<open>member\<close> that stands for a function other than \<open>connect\<close>, \<open>disconnect\<close>
  and \<open>testConnection\<close>; the action is then \<open>performAction\<close> applied to the two
  arguments of the call. The proxy does one of three things. When \<open>connect\<close> and then the
  action, run on the driver as \<open>connect\<close> left it, succeed, the promise of the proxy is
  fulfilled with the action's own result; the driver is as \<open>disconnect\<close> leaves the driver
  the action returned, the methods entered are \<open>connect\<close>, the action, \<open>disconnect\<close> in
  this order, nothing is logged and the client handle is gone. When \<open>connect\<close> succeeds and
  the action fails, the promise is rejected with the same error after it was logged once;
  the methods entered are \<open>connect\<close> and the action only, and the client handle is still
  set. When \<open>connect\<close> fails, the promise is rejected with the same error after it was
  logged once and no other method is entered.
\<close>

theorem lifecycle_proxy:
  assumes "(c, act, n) \<in> {(InsertData p1, insertData w p1, ''insertData''),
                           (UpdateData p2, updateData w p2, ''updateData''),
                           (DeleteData p3, deleteData w p3, ''deleteData'')}"
    and "is_function_member member"
    and "member \<notin> {''connect'', ''disconnect'', ''testConnection''}"
  shows
  "(fst (BigQueryDriver_connect w JUndefined d) = Inr u \<and>
    fst (act (snd (BigQueryDriver_connect w JUndefined d))) = Inr r \<longrightarrow>
      BigQuery_getProxyDriver w c d =
        (Returns_promise (Inr r),
         snd (BigQueryDriver_disconnect
                (snd (act (snd (BigQueryDriver_connect w JUndefined d)))))) \<and>
      calls (trace (snd (BigQuery_getProxyDriver w c d))) =
        calls (trace d) @ [''connect'', n, ''disconnect''] \<and>
      logged (trace (snd (BigQuery_getProxyDriver w c d))) = logged (trace d) \<and>
      client (snd (BigQuery_getProxyDriver w c d)) = None) \<and>
   (fst (BigQueryDriver_connect w JUndefined d) = Inr u \<and>
    fst (act (snd (BigQueryDriver_connect w JUndefined d))) = Inl e \<longrightarrow>
      BigQuery_getProxyDriver w c d =
        (Returns_promise (Inl e),
         emit (ErrorLogged e) (snd (act (snd (BigQueryDriver_connect w JUndefined d))))) \<and>
      calls (trace (snd (BigQuery_getProxyDriver w c d))) =
        calls (trace d) @ [''connect'', n] \<and>
      logged (trace (snd (BigQuery_getProxyDriver w c d))) = logged (trace d) @ [e] \<and>
      client (snd (BigQuery_getProxyDriver w c d)) \<noteq> None) \<and>
   (fst (BigQueryDriver_connect w JUndefined d) = Inl e \<longrightarrow>
      BigQuery_getProxyDriver w c d =
        (Returns_promise (Inl e),
         emit (ErrorLogged e) (snd (BigQueryDriver_connect w JUndefined d))) \<and>
      calls (trace (snd (BigQuery_getProxyDriver w c d))) = calls (trace d) @ [''connect''] \<and>
      logged (trace (snd (BigQuery_getProxyDriver w c d))) = logged (trace d) @ [e]) \<and>
   (fst (XeroDriver_connect xw (if truthy config then config else payload) x) = Inr xu \<and>
    fst (performAction xw payload params
           (snd (XeroDriver_connect xw (if truthy config then config else payload) x))) = Inr xr
    \<longrightarrow>
      Xero_getProxyDriver xw config member payload params x =
        (Returns_promise (Inr xr),
         snd (XeroDriver_disconnect (snd (performAction xw payload params
           (snd (XeroDriver_connect xw (if truthy config then config else payload) x)))))) \<and>
      calls (trace (snd (Xero_getProxyDriver xw config member payload params x))) =
        calls (trace x) @ [''connect'', ''performAction'', ''disconnect''] \<and>
      logged (trace (snd (Xero_getProxyDriver xw config member payload params x))) =
        logged (trace x) \<and>
      client (snd (Xero_getProxyDriver xw config member payload params x)) = None) \<and>
   (fst (XeroDriver_connect xw (if truthy config then config else payload) x) = Inr xu \<and>
    fst (performAction xw payload params
           (snd (XeroDriver_connect xw (if truthy config then config else payload) x))) = Inl xe
    \<longrightarrow>
      Xero_getProxyDriver xw config member payload params x =
        (Returns_promise (Inl xe),
         emit (ErrorLogged xe) (snd (performAction xw payload params
           (snd (XeroDriver_connect xw (if truthy config then config else payload) x))))) \<and>
      calls (trace (snd (Xero_getProxyDriver xw config member payload params x))) =
        calls (trace x) @ [''connect'', ''performAction''] \<and>
      logged (trace (snd (Xero_getProxyDriver xw config member payload params x))) =
        logged (trace x) @ [xe] \<and>
      client (snd (Xero_getProxyDriver xw config member payload params x)) \<noteq> None) \<and>
   (fst (XeroDriver_connect xw (if truthy config then config else payload) x) = Inl xe \<longrightarrow>
      Xero_getProxyDriver xw config member payload params x =
        (Returns_promise (Inl xe),
         emit (ErrorLogged xe)
           (snd (XeroDriver_connect xw (if truthy config then config else payload) x))) \<and>
      calls (trace (snd (Xero_getProxyDriver xw config member payload params x))) =
        calls (trace x) @ [''connect''] \<and>
      logged (trace (snd (Xero_getProxyDriver xw config member payload params x))) =
        logged (trace x) @ [xe])"
proof -
  from assms(1) have act: "invoke w c = act"
    by (auto simp: fun_eq_iff)
  from assms(1) have effect:
    "calls (trace (snd (act d'))) = calls (trace d') @ [n] \<and>
     logged (trace (snd (act d'))) = logged (trace d') \<and>
     client (snd (act d')) = client d'" for d'
    using insertData_effect [of w p1 d'] updateData_effect [of w p2 d']
      deleteData_effect [of w p3 d']
    by auto
  from BigQuery_proxy_runs [of w c act n d u r e, OF act effect]
    Xero_proxy_runs [of member xw config payload x xu params xr xe, OF assms(2,3)]
  show ?thesis by (elim conjE) (intro conjI; assumption)
qed

theorem lifecycle_proxy_witness:
  "fst (BigQuery_getProxyDriver sample_bigquery
      (DeleteData \<lparr>dataset = ''ds'', table = ''people'', filters = JStr ''age > 1''\<rparr>)
      sample_driver) = Returns_promise (Inr JUndefined) \<and>
   requests (trace (snd (BigQuery_getProxyDriver sample_bigquery
      (DeleteData \<lparr>dataset = ''ds'', table = ''people'', filters = JStr ''age > 1''\<rparr>)
      sample_driver))) =
     [TableQuery ''ds'' ''people''
        (''DELETE FROM '' @ bt @ ''proj.ds.people'' @ bt @ nl @
         ''        WHERE age > 1'' @ nl @ ''    '')] \<and>
   calls (trace (snd (BigQuery_getProxyDriver sample_bigquery
      (DeleteData \<lparr>dataset = ''ds'', table = ''people'', filters = JStr ''age > 1''\<rparr>)
      sample_driver))) = [''connect'', ''deleteData'', ''disconnect''] \<and>
   fst (BigQuery_getProxyDriver sample_bigquery
      (InsertData \<lparr>dataset = ''ds'', table = ''people'',
                   data = JArr [JObj [(''name'', JStr ''Al'')]], options = JUndefined\<rparr>)
      sample_driver) = Returns_promise (Inr (JArr [])) \<and>
   requests (trace (snd (BigQuery_getProxyDriver sample_bigquery
      (InsertData \<lparr>dataset = ''ds'', table = ''people'',
                   data = JArr [JObj [(''name'', JStr ''Al'')]], options = JUndefined\<rparr>)
      sample_driver))) =
     [TableGet ''ds'' ''people'',
      TableInsert ''ds'' ''people'' (JArr [JObj [(''name'', JStr ''Al'')]]) JUndefined] \<and>
   fst (BigQuery_getProxyDriver sample_bigquery
      (UpdateData \<lparr>dataset = ''ds'', table = ''people'', filters = JStr [],
                   set' = JStr ''age=2''\<rparr>)
      sample_driver) = Returns_promise (Inl (Error ''BigQuery UPDATE must have a WHERE clause'')) \<and>
   calls (trace (snd (BigQuery_getProxyDriver sample_bigquery
      (UpdateData \<lparr>dataset = ''ds'', table = ''people'', filters = JStr [],
                   set' = JStr ''age=2''\<rparr>)
      sample_driver))) = [''connect'', ''updateData''] \<and>
   logged (trace (snd (BigQuery_getProxyDriver sample_bigquery
      (UpdateData \<lparr>dataset = ''ds'', table = ''people'', filters = JStr [],
                   set' = JStr ''age=2''\<rparr>)
      sample_driver))) = [Error ''BigQuery UPDATE must have a WHERE clause''] \<and>
   fst (BigQuery_getProxyDriver sample_bigquery
      (DeleteData \<lparr>dataset = ''ds'', table = ''people'', filters = JStr ''age > 1''\<rparr>)
      unparsable_driver) = Returns_promise (Inl (Error ''Unexpected end of JSON input'')) \<and>
   calls (trace (snd (BigQuery_getProxyDriver sample_bigquery
      (DeleteData \<lparr>dataset = ''ds'', table = ''people'', filters = JStr ''age > 1''\<rparr>)
      unparsable_driver))) = [''connect''] \<and>
   fst (Xero_getProxyDriver sample_xero sample_config ''performAction''
      (JStr ''accounting.getInvoice'') (JObj [(''invoiceID'', JStr ''inv'')])
      sample_xero_driver) =
     Returns_promise (Inr (JObj [(''t1'', JArr [JStr ''t1'', JStr ''inv'']),
                                 (''t2'', not_found_response),
                                 (''t3'', JArr [JStr ''t3'', JStr ''inv''])])) \<and>
   calls (trace (snd (Xero_getProxyDriver sample_xero sample_config ''performAction''
      (JStr ''accounting.getInvoice'') (JObj [(''invoiceID'', JStr ''inv'')])
      sample_xero_driver))) = [''connect'', ''performAction'', ''disconnect''] \<and>
   requests (trace (snd (Xero_getProxyDriver sample_xero sample_config ''performAction''
      (JStr ''accounting.getInvoice'') (JObj [(''invoiceID'', JStr ''inv'')])
      sample_xero_driver))) =
     [GetConnections ''Bearer tok'',
      AccountingCall ''getInvoice'' [JStr ''t1'', JStr ''inv''],
      AccountingCall ''getInvoice'' [JStr ''t2'', JStr ''inv''],
      AccountingCall ''getInvoice'' [JStr ''t3'', JStr ''inv'']] \<and>
   fst (Xero_getProxyDriver sample_xero sample_config ''toString''
      (JStr ''payroll.getEmployees'') (JObj []) sample_xero_driver) =
     Returns_promise (Inl (Error ''API payroll for Xero not found'')) \<and>
   calls (trace (snd (Xero_getProxyDriver sample_xero sample_config ''toString''
      (JStr ''payroll.getEmployees'') (JObj []) sample_xero_driver))) =
     [''connect'', ''performAction''] \<and>
   fst (Xero_getProxyDriver sample_xero (JObj []) ''performAction''
      (JStr ''accounting.getInvoice'') (JObj [(''invoiceID'', JStr ''inv'')])
      sample_xero_driver) = Returns_promise (Inl TypeError) \<and>
   calls (trace (snd (Xero_getProxyDriver sample_xero (JObj []) ''performAction''
      (JStr ''accounting.getInvoice'') (JObj [(''invoiceID'', JStr ''inv'')])
      sample_xero_driver))) = [''connect'']"
  using lifecycle_proxy [where w = sample_bigquery and d = sample_driver
      and c = "DeleteData \<lparr>dataset = ''ds'', table = ''people'', filters = JStr ''age > 1''\<rparr>"
      and act = "deleteData sample_bigquery
                   \<lparr>dataset = ''ds'', table = ''people'', filters = JStr ''age > 1''\<rparr>"
      and n = "''deleteData''"
      and ?p1.0 = "\<lparr>dataset = ''ds'', table = ''people'',
                   data = JArr [JObj [(''name'', JStr ''Al'')]], options = JUndefined\<rparr>"
      and ?p2.0 = "\<lparr>dataset = ''ds'', table = ''people'', filters = JStr [],
                   set' = JStr ''age=2''\<rparr>"
      and ?p3.0 = "\<lparr>dataset = ''ds'', table = ''people'', filters = JStr ''age > 1''\<rparr>"
      and u = JUndefined and r = JUndefined and e = TypeError
      and member = "''performAction''"
      and xw = sample_xero and config = sample_config and x = sample_xero_driver
      and payload = "JStr ''accounting.getInvoice''"
      and params = "JObj [(''invoiceID'', JStr ''inv'')]" and xu = JUndefined
      and xr = "JObj [(''t1'', JArr [JStr ''t1'', JStr ''inv'']),
                (''t2'', not_found_response),
                (''t3'', JArr [JStr ''t3'', JStr ''inv''])]" and xe = TypeError]
    lifecycle_proxy [where w = sample_bigquery and d = sample_driver
      and c = "UpdateData \<lparr>dataset = ''ds'', table = ''people'', filters = JStr [],
                   set' = JStr ''age=2''\<rparr>"
      and act = "updateData sample_bigquery
                   \<lparr>dataset = ''ds'', table = ''people'', filters = JStr [],
                    set' = JStr ''age=2''\<rparr>"
      and n = "''updateData''"
      and ?p1.0 = "\<lparr>dataset = ''ds'', table = ''people'',
                   data = JArr [JObj [(''name'', JStr ''Al'')]], options = JUndefined\<rparr>"
      and ?p2.0 = "\<lparr>dataset = ''ds'', table = ''people'', filters = JStr [],
                   set' = JStr ''age=2''\<rparr>"
      and ?p3.0 = "\<lparr>dataset = ''ds'', table = ''people'', filters = JStr ''age > 1''\<rparr>"
      and u = JUndefined and r = JUndefined
      and e = "Error ''BigQuery UPDATE must have a WHERE clause''"
      and member = "''toString''"
      and xw = sample_xero and config = sample_config and x = sample_xero_driver
      and payload = "JStr ''payroll.getEmployees''"
      and params = "JObj []" and xu = JUndefined
      and xr = JUndefined and xe = "Error ''API payroll for Xero not found''"]
    lifecycle_proxy [where w = sample_bigquery and d = unparsable_driver
      and c = "DeleteData \<lparr>dataset = ''ds'', table = ''people'', filters = JStr ''age > 1''\<rparr>"
      and act = "deleteData sample_bigquery
                   \<lparr>dataset = ''ds'', table = ''people'', filters = JStr ''age > 1''\<rparr>"
      and n = "''deleteData''"
      and ?p1.0 = "\<lparr>dataset = ''ds'', table = ''people'',
                   data = JArr [JObj [(''name'', JStr ''Al'')]], options = JUndefined\<rparr>"
      and ?p2.0 = "\<lparr>dataset = ''ds'', table = ''people'', filters = JStr [],
                   set' = JStr ''age=2''\<rparr>"
      and ?p3.0 = "\<lparr>dataset = ''ds'', table = ''people'', filters = JStr ''age > 1''\<rparr>"
      and u = JUndefined and r = JUndefined
      and e = "Error ''Unexpected end of JSON input''"
      and member = "''performAction''"
      and xw = sample_xero and config = "JObj []" and x = sample_xero_driver
      and payload = "JStr ''accounting.getInvoice''"
      and params = "JObj [(''invoiceID'', JStr ''inv'')]" and xu = JUndefined
      and xr = JUndefined and xe = TypeError]
    lifecycle_proxy [where w = sample_bigquery and d = sample_driver
      and c = "InsertData \<lparr>dataset = ''ds'', table = ''people'',
                   data = JArr [JObj [(''name'', JStr ''Al'')]], options = JUndefined\<rparr>"
      and act = "insertData sample_bigquery
                   \<lparr>dataset = ''ds'', table = ''people'',
                    data = JArr [JObj [(''name'', JStr ''Al'')]], options = JUndefined\<rparr>"
      and n = "''insertData''"
      and ?p1.0 = "\<lparr>dataset = ''ds'', table = ''people'',
                   data = JArr [JObj [(''name'', JStr ''Al'')]], options = JUndefined\<rparr>"
      and ?p2.0 = "\<lparr>dataset = ''ds'', table = ''people'', filters = JStr [],
                   set' = JStr ''age=2''\<rparr>"
      and ?p3.0 = "\<lparr>dataset = ''ds'', table = ''people'', filters = JStr ''age > 1''\<rparr>"
      and u = JUndefined and r = "JArr []" and e = TypeError
      and member = "''performAction''"
      and xw = sample_xero and config = sample_config and x = sample_xero_driver
      and payload = "JStr ''accounting.getInvoice''"
      and params = "JObj [(''invoiceID'', JStr ''inv'')]" and xu = JUndefined
      and xr = "JObj [(''t1'', JArr [JStr ''t1'', JStr ''inv'']),
                (''t2'', not_found_response),
                (''t3'', JArr [JStr ''t3'', JStr ''inv''])]" and xe = TypeError]
  by (simp add: sample_connect sample_connect_unparsable sample_delete sample_insert sample_update
      sample_xero_connect sample_xero_connect_empty sample_getInvoice sample_payroll
      BigQueryDriver_disconnect_def XeroDriver_disconnect_def
      is_function_member_def XeroDriver_methods_def Object_prototype_functions_def)

section \<open>Tenant fan-out\<close>

lemma String_split_no_separator: "c \<notin> set s \<Longrightarrow> String_split c s = [s]"
  by (induction s) auto

lemma split_accounting:
  "CHR ''.'' \<notin> set m \<Longrightarrow> String_split CHR ''.'' (''accounting.'' @ m) = [''accounting'', m]"
  by (simp add: String_split_no_separator)

subsection \<open>Assignment to a property\<close>

lemma replace_value_keys: "map fst (replace_value kvs k v) = map fst kvs"
  by (induction kvs) auto

lemma map_of_replace_value':
  "map_of kvs k = Some v' \<Longrightarrow> map_of (replace_value kvs k v) = (map_of kvs)(k \<mapsto> v)"
  by (induction kvs) (auto simp: fun_upd_twist)

lemma map_of_replace_value:
  assumes "has_own kvs k"
  shows "map_of (replace_value kvs k v) = (map_of kvs)(k \<mapsto> v)"
proof -
  from assms have "map_of kvs k \<noteq> None"
    by (simp add: has_own_def map_of_eq_None_iff)
  then obtain v' where "map_of kvs k = Some v'" by auto
  then show ?thesis by (rule map_of_replace_value')
qed

lemma insert_index_split:
  "\<exists>pre post. kvs = pre @ post \<and> insert_index n kv kvs = pre @ kv # post"
proof (induction kvs)
  case Nil
  then show ?case by simp
next
  case (Cons a kvs)
  obtain k' v' where a: "a = (k', v')" by (cases a)
  from Cons obtain pre post where split: "kvs = pre @ post"
      "insert_index n kv kvs = pre @ kv # post" by blast
  show ?case
  proof (cases "\<exists>m. array_index k' = Some m \<and> m < n")
    case True
    with split have "a # kvs = (a # pre) @ post \<and>
        insert_index n kv (a # kvs) = (a # pre) @ kv # post"
      by (auto simp: a)
    then show ?thesis by blast
  next
    case False
    then have "a # kvs = [] @ (a # kvs) \<and> insert_index n kv (a # kvs) = [] @ kv # (a # kvs)"
      by (auto simp: a split: option.splits)
    then show ?thesis by blast
  qed
qed

lemma map_of_insert_between:
  "k \<notin> fst ` set pre \<Longrightarrow> map_of (pre @ (k, v) # post) = (map_of (pre @ post))(k \<mapsto> v)"
  by (induction pre) (auto simp: fun_upd_twist)

lemma map_of_assign:
  assumes "k \<noteq> ''__proto__''"
  shows "map_of (assign kvs k v) = (map_of kvs)(k \<mapsto> v)"
proof (cases "has_own kvs k")
  case True
  with assms show ?thesis by (simp add: assign_def map_of_replace_value)
next
  case False
  show ?thesis
  proof (cases "array_index k")
    case None
    with assms False show ?thesis
      using map_of_insert_between [of k kvs v "[]"] by (simp add: assign_def has_own_def)
  next
    case (Some n)
    from insert_index_split [of kvs n "(k, v)"] obtain pre post
      where split: "kvs = pre @ post" "insert_index n (k, v) kvs = pre @ (k, v) # post"
      by blast
    from False split(1) have "k \<notin> fst ` set pre" by (auto simp: has_own_def)
    from map_of_insert_between [OF this, of v post] assms False Some split
    show ?thesis by (simp add: assign_def)
  qed
qed

lemma keys_assign:
  assumes "k \<noteq> ''__proto__''"
  shows "fst ` set (assign kvs k v) = insert k (fst ` set kvs)"
proof -
  have "dom (map_of (assign kvs k v)) = insert k (dom (map_of kvs))"
    by (simp add: map_of_assign [OF assms])
  then show ?thesis by (simp add: dom_map_of_conv_image_fst)
qed

lemma distinct_assign: "distinct (map fst kvs) \<Longrightarrow> distinct (map fst (assign kvs k v))"
proof (cases "has_own kvs k \<or> k = ''__proto__''")
  case True
  assume "distinct (map fst kvs)"
  with True show ?thesis by (auto simp: assign_def replace_value_keys)
next
  case False
  assume d: "distinct (map fst kvs)"
  have "distinct (map fst (insert_index n (k, v) kvs))" for n
  proof -
    from insert_index_split [of kvs n "(k, v)"] obtain pre post
      where "kvs = pre @ post" "insert_index n (k, v) kvs = pre @ (k, v) # post"
      by blast
    with d False show ?thesis by (auto simp: has_own_def)
  qed
  with d False show ?thesis
    by (auto simp: assign_def has_own_def split: option.splits)
qed

lemma keys_assign_all:
  "''__proto__'' \<notin> set ids \<Longrightarrow>
   fst ` set (foldl (\<lambda>r t. assign r t (entry t)) rs ids) = fst ` set rs \<union> set ids"
proof (induction ids arbitrary: rs)
  case Nil
  then show ?case by simp
next
  case (Cons a ids)
  then have "a \<noteq> ''__proto__''" "''__proto__'' \<notin> set ids" by auto
  with Cons.IH [of "assign rs a (entry a)"] show ?case
    by (simp add: keys_assign)
qed

lemma distinct_assign_all:
  "distinct (map fst rs) \<Longrightarrow>
   distinct (map fst (foldl (\<lambda>r t. assign r t (entry t)) rs ids))"
  by (induction ids arbitrary: rs) (auto simp: distinct_assign)

lemma map_of_assign_all:
  "''__proto__'' \<notin> set ids \<Longrightarrow>
   map_of (foldl (\<lambda>r t. assign r t (entry t)) rs ids) t =
     (if t \<in> set ids then Some (entry t) else map_of rs t)"
proof (induction ids arbitrary: rs)
  case Nil
  then show ?case by simp
next
  case (Cons a ids)
  then have "a \<noteq> ''__proto__''" "''__proto__'' \<notin> set ids" by auto
  with Cons.IH [of "assign rs a (entry a)"] show ?case
    by (simp add: map_of_assign)
qed

subsection \<open>The loop over the tenants\<close>

lemma tenant_loop_result:
  assumes "\<forall>t \<in> set ids. tenant_args mp params t = Inr (args t)"
  shows "tenant_loop f m mp params ids rs d =
     (Inr (foldl (\<lambda>r t. assign r t (tenant_entry f (args t))) rs ids),
      d\<lparr>trace := trace d @ map (\<lambda>t. Request (AccountingCall m (args t))) ids\<rparr>)"
  using assms by (induction ids arbitrary: rs d) (auto simp: emit_def)

lemma tenant_args_object:
  "\<not> nullish params \<Longrightarrow>
   tenant_args mp params t =
     Inr (map (\<lambda>param. if param = ''xeroTenantId'' then JStr t
                        else projr (get_prop params param)) mp)"
  unfolding tenant_args_def
  by (rule map_throw_all2) (cases params; simp add: list_all2_conv_all_nth nullish_def)

text \<open>
  Claim C4, as the code has it. \<open>performAction\<close> on a connected driver that discovered
  the tenants \<open>ids\<close>, none of them \<open>__proto__\<close>, for the name \<open>accounting.m\<close> of a
  function \<open>f\<close> of the accounting API and parameters that are not \<open>null\<close> or
  \<open>undefined\<close>: there is one argument list per tenant, \<open>f\<close> is called once per tenant
  with it, in the order of \<open>ids\<close>, and the call returns an object whose keys are exactly
  the tenants. The entry of a tenant whose call threw is the \<open>response\<close> of the error,
  the whole of it; the entry of a tenant whose call resolved is the \<open>body\<close> of the value
  it resolved to. A call that throws neither stops the later calls nor changes the other
  entries.
\<close>

theorem performAction_fan_out:
  assumes "CHR ''.'' \<notin> set m" and "accountingApi w m = Some f"
    and "client d \<noteq> None" and "tenantIds d = Some ids" and "\<not> nullish params"
    and "''__proto__'' \<notin> set ids"
  shows "\<exists>args responses.
     (\<forall>t. tenant_args (reflect_params f) params t = Inr (args t)) \<and>
     fst (performAction w (JStr (''accounting.'' @ m)) params d) = Inr (JObj responses) \<and>
     requests (trace (snd (performAction w (JStr (''accounting.'' @ m)) params d))) =
       requests (trace d) @ map (\<lambda>t. AccountingCall m (args t)) ids \<and>
     fst ` set responses = set ids \<and> distinct (map fst responses) \<and>
     (\<forall>t \<in> set ids.
        (\<forall>err. fn_call f (args t) = Inl err \<longrightarrow> map_of responses t = Some (error_response err)) \<and>
        (\<forall>res body. fn_call f (args t) = Inr res \<and> get_prop res ''body'' = Inr body
            \<longrightarrow> map_of responses t = Some body))"
proof -
  define action where "action = JStr (''accounting.'' @ m)"
  define args where "args = (\<lambda>t. map (\<lambda>param. if param = ''xeroTenantId'' then JStr t
      else projr (get_prop params param)) (reflect_params f))"
  define responses
    where "responses = foldl (\<lambda>r t. assign r t (tenant_entry f (args t))) [] ids"
  from assms(3) obtain c where c: "client d = Some c" by auto
  have args: "tenant_args (reflect_params f) params t = Inr (args t)" for t
    using assms(5) by (simp add: tenant_args_object args_def)
  then have loop: "tenant_loop f m (reflect_params f) params ids [] d0 =
     (Inr responses, d0\<lparr>trace := trace d0 @ map (\<lambda>t. Request (AccountingCall m (args t))) ids\<rparr>)"
    for d0
    unfolding responses_def by (intro tenant_loop_result) simp
  define full where "full = ''accounting.'' @ m"
  have tx: "toString_method action = Inr full"
    by (simp add: action_def full_def toString_method_def nullish_def)
  have parts: "String_split CHR ''.'' full = [''accounting'', m]"
    unfolding full_def by (rule split_accounting [OF assms(1)])
  have run: "performAction w action params d =
     (Inr (JObj responses),
      (emit (Called ''performAction'') d)
        \<lparr>trace := trace (emit (Called ''performAction'') d)
                    @ map (\<lambda>t. Request (AccountingCall m (args t))) ids\<rparr>)"
    using assms(2,4) c
    by (simp add: performAction_def tx Let_def parts nth_opt_def interpolate_def loop)
  have entries: "map_of responses t = Some (tenant_entry f (args t))" if "t \<in> set ids" for t
    using that assms(6) by (simp add: responses_def map_of_assign_all)
  have keys: "fst ` set responses = set ids"
    using assms(6) by (simp add: responses_def keys_assign_all)
  have dist: "distinct (map fst responses)"
    by (simp add: responses_def distinct_assign_all)
  have reqs: "requests (trace (snd (performAction w action params d))) =
       requests (trace d) @ map (\<lambda>t. AccountingCall m (args t)) ids"
    by (simp add: run)
  have per_tenant: "\<forall>t \<in> set ids.
        (\<forall>err. fn_call f (args t) = Inl err \<longrightarrow> map_of responses t = Some (error_response err)) \<and>
        (\<forall>res body. fn_call f (args t) = Inr res \<and> get_prop res ''body'' = Inr body
            \<longrightarrow> map_of responses t = Some body)"
    by (auto simp: entries tenant_entry_def)
  have result: "fst (performAction w action params d) = Inr (JObj responses)"
    by (simp add: run)
  from args result reqs keys dist per_tenant show ?thesis
    unfolding action_def by blast
qed

theorem performAction_fan_out_witness:
  "fst (performAction sample_xero (JStr ''accounting.getInvoice'')
          (JObj [(''invoiceID'', JStr ''inv'')]) connected_xero_driver) =
     Inr (JObj [(''t1'', JArr [JStr ''t1'', JStr ''inv'']),
                (''t2'', not_found_response),
                (''t3'', JArr [JStr ''t3'', JStr ''inv''])]) \<and>
   requests (trace (snd (performAction sample_xero (JStr ''accounting.getInvoice'')
          (JObj [(''invoiceID'', JStr ''inv'')]) connected_xero_driver))) =
     [AccountingCall ''getInvoice'' [JStr ''t1'', JStr ''inv''],
      AccountingCall ''getInvoice'' [JStr ''t2'', JStr ''inv''],
      AccountingCall ''getInvoice'' [JStr ''t3'', JStr ''inv'']]"
  using performAction_fan_out [of "''getInvoice''" sample_xero getInvoice connected_xero_driver
      "[''t1'', ''t2'', ''t3'']" "JObj [(''invoiceID'', JStr ''inv'')]"]
  by (simp add: performAction_def toString_method_def Let_def nullish_def nth_opt_def
      interpolate_def reflect_getInvoice call_getInvoice tenant_args_def tenant_entry_def
      assign_def has_own_def
      sample_xero_def sample_xero_driver_def connected_xero_driver_def XeroDriver_new_def
      emit_def)

text \<open>
  As the claim is worded the entry of a tenant whose call threw is the body of the error's
  response. The second sample tenant's call is rejected with a response that has a status
  code and a body; the entry is that response, not its body.
\<close>

theorem performAction_fan_out_counterexample:
  "fn_call getInvoice [JStr ''t2'', JStr ''inv''] = Inl (VendorError not_found_response) \<and>
   get_prop not_found_response ''body'' = Inr (JStr ''Invoice not found'') \<and>
   fst (performAction sample_xero (JStr ''accounting.getInvoice'')
          (JObj [(''invoiceID'', JStr ''inv'')]) connected_xero_driver) =
     Inr (JObj [(''t1'', JArr [JStr ''t1'', JStr ''inv'']),
                (''t2'', not_found_response),
                (''t3'', JArr [JStr ''t3'', JStr ''inv''])]) \<and>
   not_found_response \<noteq> JStr ''Invoice not found''"
  by (simp add: performAction_def toString_method_def Let_def nullish_def nth_opt_def
      interpolate_def reflect_getInvoice call_getInvoice tenant_args_def tenant_entry_def
      assign_def has_own_def
      sample_xero_def sample_xero_driver_def connected_xero_driver_def XeroDriver_new_def
      emit_def not_found_response_def)

end
